theory Spec2Isabelle
  imports Complex_Main
begin

section \<open>Data model\<close>

text \<open>
  Identifiers are the strings that \<^verbatim>\<open>ObjectId.toString()\<close> yields (24 lower-case
  hexadecimal digits); request parameters are taken in that canonical spelling, so the
  source's comparisons \<^verbatim>\<open>x.toString() === id\<close> are equalities of strings.
  JavaScript numbers are modelled as reals (finite values only), timestamps as the
  integer number of milliseconds since the epoch.
\<close>

type_synonym oid = string

text \<open>\<^verbatim>\<open>GROUP_STATUSES\<close> of the student model: the status of one membership.\<close>

datatype membership_status = Active | Paused | Completed | Left

text \<open>The status enumeration of the group schema.\<close>

datatype group_status = GPlanned | GActive | GPaused | GCompleted | GArchived

text \<open>\<^verbatim>\<open>ATTENDANCE_STATUSES\<close>.\<close>

datatype attendance_status = Present | Absent | Late | Excused

text \<open>\<^verbatim>\<open>studentGroupSchema\<close>: one entry of a student's \<^verbatim>\<open>groups\<close> list.\<close>

record membership =
  mgroup :: oid
  status :: membership_status
  joinedAt :: int
  mnote :: "string option"

text \<open>\<^verbatim>\<open>studentSchema\<close>; \<^verbatim>\<open>balanceResetAt = None\<close> is a document without the field.\<close>

record student_doc =
  sid :: oid
  fullname :: string
  studentPhone :: string
  parentPhone :: string
  groupAttached :: bool
  gender :: string
  birthDate :: int
  snote :: "string option"
  password :: "string option"
  balance :: real
  balanceResetAt :: "int option"
  coinBalance :: real
  groups :: "membership list"

text \<open>\<^verbatim>\<open>groupAttendanceSchema\<close>.\<close>

record attendance_entry =
  student :: oid
  date :: int
  astatus :: attendance_status
  anote :: "string option"
  markedBy :: "oid option"

text \<open>\<^verbatim>\<open>groupSchema\<close>, the fields the membership and attendance code reads or writes.\<close>

record group_doc =
  gid :: oid
  gstatus :: group_status
  maxStudents :: real
  students :: "oid list"
  attendance :: "attendance_entry list"

text \<open>
  The state of the process: the two collections and the module-level variables of the
  balance-reset service.
\<close>

record state =
  Student :: "student_doc list"
  Group :: "group_doc list"
  isResetRunning :: bool
  lastResetRunAt :: int

text \<open>
  What a request sees of its environment: the clock (read once per request), the value
  of \<^verbatim>\<open>Number(process.env.STUDENT_BALANCE_RESET_MIN_GAP_MS)\<close> (\<open>None\<close> when unset or
  not a number), whether the store rejects the sweep's \<^verbatim>\<open>updateMany\<close>, the identifier
  the store gives to a document created by this request, and the password hash function
  of the \<^verbatim>\<open>bcrypt\<close> library.
\<close>

record ctx =
  now :: int
  envMinGap :: "real option"
  storeFails :: bool
  newId :: oid
  bcryptHash :: "string \<Rightarrow> string"

section \<open>Balance-reset service\<close>

definition THIRTY_DAYS_MS :: int where
  "THIRTY_DAYS_MS = 30 * 24 * 60 * 60 * 1000"

definition DEFAULT_MIN_GAP_MS :: real where
  "DEFAULT_MIN_GAP_MS = 5 * 60 * 1000"

text \<open>\<^verbatim>\<open>Math.max(Number(env) || DEFAULT_MIN_GAP_MS, 10 * 1000)\<close>.\<close>

definition minGapMs :: "real option \<Rightarrow> real" where
  "minGapMs e =
     max (case e of None \<Rightarrow> DEFAULT_MIN_GAP_MS
          | Some v \<Rightarrow> if v = 0 then DEFAULT_MIN_GAP_MS else v)
         (10 * 1000)"

datatype sweep_result = Skipped string | Swept nat nat

datatype 'a outcome = Returned 'a | Thrown

text \<open>
  The filter of the sweep:
  \<^verbatim>\<open>$or: [{balanceResetAt: {$exists: false}}, {balanceResetAt: {$lte: dueBefore}}]\<close>.
\<close>

definition resetDue :: "int \<Rightarrow> student_doc \<Rightarrow> bool" where
  "resetDue dueBefore s =
     (case balanceResetAt s of None \<Rightarrow> True | Some t \<Rightarrow> t \<le> dueBefore)"

text \<open>The update of the sweep: \<^verbatim>\<open>$set: {balance: 0, balanceResetAt: resetAt}\<close>.\<close>

definition resetSet :: "int \<Rightarrow> student_doc \<Rightarrow> student_doc" where
  "resetSet resetAt s = s\<lparr>balance := 0, balanceResetAt := Some resetAt\<rparr>"

text \<open>
  \<^verbatim>\<open>Student.updateMany(filter, update)\<close>: every matching document is updated; the
  result counts the matching documents and those the update changed.
\<close>

definition updateMany ::
  "(student_doc \<Rightarrow> bool) \<Rightarrow> (student_doc \<Rightarrow> student_doc) \<Rightarrow> student_doc list
     \<Rightarrow> (nat \<times> nat) \<times> student_doc list" where
  "updateMany flt upd docs =
     ((length (filter flt docs), length (filter (\<lambda>d. flt d \<and> upd d \<noteq> d) docs)),
      map (\<lambda>d. if flt d then upd d else d) docs)"

text \<open>
  Lines 24 to 39 of the service, up to the first \<^verbatim>\<open>await\<close>: the throttle, the
  overlap check, and the claim of the flag. \<open>None\<close> means the sweep goes on.
\<close>

definition sweepEnter :: "bool \<Rightarrow> ctx \<Rightarrow> state \<Rightarrow> sweep_result option \<times> state" where
  "sweepEnter force c st =
     (if \<not> force \<and> real_of_int (now c - lastResetRunAt st) < minGapMs (envMinGap c)
      then (Some (Skipped ''throttled''), st)
      else if isResetRunning st then (Some (Skipped ''in_progress''), st)
      else (None, st\<lparr>isResetRunning := True, lastResetRunAt := now c\<rparr>))"

text \<open>
  The \<^verbatim>\<open>try\<close> block with its \<^verbatim>\<open>finally\<close>: the bulk update, which the store may
  reject, and the release of the flag on both paths.
\<close>

definition sweepBody :: "ctx \<Rightarrow> state \<Rightarrow> sweep_result outcome \<times> state" where
  "sweepBody c st =
     (let resetAt = now c;
          dueBefore = now c - THIRTY_DAYS_MS
      in if storeFails c then (Thrown, st\<lparr>isResetRunning := False\<rparr>)
         else (case updateMany (resetDue dueBefore) (resetSet resetAt) (Student st) of
                 ((matched, modified), docs) \<Rightarrow>
                   (Returned (Swept matched modified),
                    st\<lparr>Student := docs, isResetRunning := False\<rparr>)))"

definition resetStudentBalancesIfNeeded ::
  "bool \<Rightarrow> ctx \<Rightarrow> state \<Rightarrow> sweep_result outcome \<times> state" where
  "resetStudentBalancesIfNeeded force c st =
     (case sweepEnter force c st of
        (Some r, st') \<Rightarrow> (Returned r, st')
      | (None, st') \<Rightarrow> sweepBody c st')"

text \<open>\<^verbatim>\<open>runBalanceResetSafely\<close>: a non-forced call whose error is logged and dropped.\<close>

definition runBalanceResetSafely :: "ctx \<Rightarrow> state \<Rightarrow> state" where
  "runBalanceResetSafely c st = snd (resetStudentBalancesIfNeeded False c st)"

section \<open>Store primitives and schema validation\<close>

type_synonym response = "nat \<times> string"

definition isHexDigit :: "char \<Rightarrow> bool" where
  "isHexDigit ch = (ch \<in> set ''0123456789abcdef'')"

definition isValidObjectId :: "string \<Rightarrow> bool" where
  "isValidObjectId s = (length s = 24 \<and> list_all isHexDigit s)"

text \<open>\<^verbatim>\<open>Student.findById\<close> and \<^verbatim>\<open>Group.findById\<close>.\<close>

definition findStudentById :: "state \<Rightarrow> oid \<Rightarrow> student_doc option" where
  "findStudentById st i = find (\<lambda>d. sid d = i) (Student st)"

definition findGroupById :: "state \<Rightarrow> oid \<Rightarrow> group_doc option" where
  "findGroupById st i = find (\<lambda>g. gid g = i) (Group st)"

text \<open>\<^verbatim>\<open>/^\+?[0-9]{7,15}$/\<close>.\<close>

definition isDigit :: "char \<Rightarrow> bool" where
  "isDigit ch = (ch \<in> set ''0123456789'')"

definition PHONE_PATTERN :: "string \<Rightarrow> bool" where
  "PHONE_PATTERN s =
     (let ds = (case s of [] \<Rightarrow> [] | ch # r \<Rightarrow> if ch = CHR ''+'' then r else s)
      in 7 \<le> length ds \<and> length ds \<le> 15 \<and> list_all isDigit ds)"

text \<open>\<^verbatim>\<open>studentSchema.pre('validate')\<close>.\<close>

definition preValidate :: "student_doc \<Rightarrow> student_doc" where
  "preValidate s = s\<lparr>groupAttached := list_ex (\<lambda>groupItem. status groupItem = Active) (groups s)\<rparr>"

text \<open>
  The validators of \<^verbatim>\<open>studentSchema\<close> and \<^verbatim>\<open>studentGroupSchema\<close>, in the order of
  the schema; the result is the message of the first one that fails. Where the schema
  gives no message of its own, the library's message is abbreviated to the rule's name.
\<close>

definition validateStudent :: "int \<Rightarrow> student_doc \<Rightarrow> string option" where
  "validateStudent t s =
     (if length (fullname s) < 2 then Some ''fullname: minlength''
      else if 120 < length (fullname s) then Some ''fullname: maxlength''
      else if \<not> PHONE_PATTERN (studentPhone s) then Some ''Phone must contain 7-15 digits''
      else if \<not> PHONE_PATTERN (parentPhone s) then Some ''Phone must contain 7-15 digits''
      else if gender s \<notin> set [''male'', ''female''] then Some ''gender: enum''
      else if \<not> birthDate s \<le> t then Some ''birthDate cannot be in the future''
      else if (case snote s of None \<Rightarrow> False | Some n \<Rightarrow> 1000 < length n)
        then Some ''note: maxlength''
      else if (case password s of None \<Rightarrow> False | Some pw \<Rightarrow> length pw < 8)
        then Some ''password: minlength''
      else if balance s < 0 then Some ''balance: min''
      else if coinBalance s < 0 then Some ''coinBalance: min''
      else if \<not> distinct (map mgroup (groups s))
        then Some ''Student cannot be attached to the same group twice''
      else if list_ex (\<lambda>m. case mnote m of None \<Rightarrow> False | Some n \<Rightarrow> 300 < length n) (groups s)
        then Some ''groups.note: maxlength''
      else None)"

datatype save_error = ValidationError string | DuplicateKey

text \<open>
  \<^verbatim>\<open>student.save()\<close> on a loaded document: the hook, the validators, the unique index
  on \<^verbatim>\<open>studentPhone\<close>, then the write.
\<close>

definition saveStudent :: "int \<Rightarrow> student_doc \<Rightarrow> state \<Rightarrow> save_error + state" where
  "saveStudent t s st =
     (let s' = preValidate s
      in case validateStudent t s' of
           Some msg \<Rightarrow> Inl (ValidationError msg)
         | None \<Rightarrow>
             if list_ex (\<lambda>d. sid d \<noteq> sid s' \<and> studentPhone d = studentPhone s') (Student st)
             then Inl DuplicateKey
             else Inr (st\<lparr>Student := map (\<lambda>d. if sid d = sid s' then s' else d) (Student st)\<rparr>))"

text \<open>\<^verbatim>\<open>Student.create\<close>: the same checks, then the insertion.\<close>

definition createStudentDoc :: "int \<Rightarrow> student_doc \<Rightarrow> state \<Rightarrow> save_error + state" where
  "createStudentDoc t s st =
     (let s' = preValidate s
      in case validateStudent t s' of
           Some msg \<Rightarrow> Inl (ValidationError msg)
         | None \<Rightarrow>
             if list_ex (\<lambda>d. studentPhone d = studentPhone s') (Student st)
             then Inl DuplicateKey
             else Inr (st\<lparr>Student := Student st @ [s']\<rparr>))"

section \<open>Group controller: membership\<close>

definition statusOfString :: "string \<Rightarrow> membership_status option" where
  "statusOfString s =
     (if s = ''active'' then Some Active
      else if s = ''paused'' then Some Paused
      else if s = ''completed'' then Some Completed
      else if s = ''left'' then Some Left
      else None)"

definition stringOfStatus :: "membership_status \<Rightarrow> string" where
  "stringOfStatus s =
     (case s of Active \<Rightarrow> ''active'' | Paused \<Rightarrow> ''paused''
      | Completed \<Rightarrow> ''completed'' | Left \<Rightarrow> ''left'')"

text \<open>
  \<^verbatim>\<open>parseGroupMemberStatus\<close>; the input is \<open>None\<close> for a falsy value, and a string is
  taken trimmed and in lower case.
\<close>

definition parseGroupMemberStatus :: "string option \<Rightarrow> membership_status option" where
  "parseGroupMemberStatus input =
     statusOfString (case input of None \<Rightarrow> ''active''
                     | Some s \<Rightarrow> if s = [] then ''active'' else s)"

text \<open>
  A date in a request body: absent (\<^verbatim>\<open>undefined\<close>, \<^verbatim>\<open>null\<close> or the empty string),
  a value that \<^verbatim>\<open>new Date\<close> does not understand, or a timestamp.
\<close>

datatype date_input = NoDate | BadDate | GoodDate int

text \<open>\<^verbatim>\<open>parseDateValue\<close>.\<close>

definition parseDateValue :: "date_input \<Rightarrow> int option" where
  "parseDateValue v = (case v of GoodDate t \<Rightarrow> Some t | _ \<Rightarrow> None)"

record membership_body =
  bstatus :: "string option"
  bjoinedAt :: date_input
  bnote :: "string option"

text \<open>
  \<^verbatim>\<open>countActiveStudentsForGroup\<close>: the documents with an active membership in the
  group, the excluded student apart.
\<close>

definition countActiveStudentsForGroup :: "state \<Rightarrow> oid \<Rightarrow> oid option \<Rightarrow> nat" where
  "countActiveStudentsForGroup st groupId excludeStudentId =
     length (filter
       (\<lambda>d. list_ex (\<lambda>m. mgroup m = groupId \<and> status m = Active) (groups d) \<and>
            (case excludeStudentId of
               None \<Rightarrow> True
             | Some e \<Rightarrow> if e \<noteq> [] \<and> isValidObjectId e then sid d \<noteq> e else True))
       (Student st))"

text \<open>\<^verbatim>\<open>findIndex\<close>, with \<open>None\<close> for \<open>-1\<close>.\<close>

fun findIndex :: "('a \<Rightarrow> bool) \<Rightarrow> 'a list \<Rightarrow> nat option" where
  "findIndex P [] = None"
| "findIndex P (x # xs) =
     (if P x then Some 0 else map_option Suc (findIndex P xs))"

text \<open>\<^verbatim>\<open>ensureStudentInGroupList\<close> and \<^verbatim>\<open>removeStudentFromGroupList\<close>.\<close>

definition ensureStudentInGroupList :: "oid \<Rightarrow> oid \<Rightarrow> state \<Rightarrow> state" where
  "ensureStudentInGroupList groupId studentId st =
     st\<lparr>Group := map (\<lambda>g. if gid g = groupId
                            then g\<lparr>students := remdups (students g @ [studentId])\<rparr>
                            else g) (Group st)\<rparr>"

definition removeStudentFromGroupList :: "oid \<Rightarrow> oid \<Rightarrow> state \<Rightarrow> state" where
  "removeStudentFromGroupList groupId studentId st =
     st\<lparr>Group := map (\<lambda>g. if gid g = groupId
                            then g\<lparr>students := filter (\<lambda>studentRef. studentRef \<noteq> studentId) (students g)\<rparr>
                            else g) (Group st)\<rparr>"

text \<open>
  The \<^verbatim>\<open>status\<close> that \<^verbatim>\<open>attachStudentToGroup\<close> passes to the parser: the one of the
  body, or without it \<^verbatim>\<open>existingMembership?.status || 'active'\<close>.
\<close>

definition statusField :: "membership_body \<Rightarrow> membership option \<Rightarrow> string option" where
  "statusField body existingMembership =
     (case bstatus body of
        None \<Rightarrow> Some (case existingMembership of
                         None \<Rightarrow> ''active''
                       | Some m \<Rightarrow> stringOfStatus (status m))
      | Some v \<Rightarrow> Some v)"

text \<open>The object that \<^verbatim>\<open>parseGroupMembershipPayload\<close> returns without an error.\<close>

record membership_payload =
  pstatus :: membership_status
  pjoinedAt :: "int option"
  pnote :: "string option"

text \<open>\<^verbatim>\<open>parseGroupMembershipPayload\<close>.\<close>

definition parseGroupMembershipPayload :: "membership_body \<Rightarrow> string + membership_payload" where
  "parseGroupMembershipPayload body =
     (case parseGroupMemberStatus (bstatus body) of
        None \<Rightarrow> Inl ''status must be one of active, paused, completed, left''
      | Some st \<Rightarrow>
          (if bjoinedAt body \<noteq> NoDate
           then (case parseDateValue (bjoinedAt body) of
                   None \<Rightarrow> Inl ''Invalid joinedAt value''
                 | Some t \<Rightarrow> Inr \<lparr>pstatus = st, pjoinedAt = Some t, pnote = bnote body\<rparr>)
           else Inr \<lparr>pstatus = st, pjoinedAt = None, pnote = bnote body\<rparr>))"

text \<open>
  \<^verbatim>\<open>existingMembership\<close>: the entry at \<^verbatim>\<open>membershipIndex\<close>, the first one of the
  student's list for the group.
\<close>

definition membershipIndexOf :: "student_doc \<Rightarrow> oid \<Rightarrow> nat option" where
  "membershipIndexOf stu groupId = findIndex (\<lambda>groupItem. mgroup groupItem = groupId) (groups stu)"

definition existingMembershipOf :: "student_doc \<Rightarrow> oid \<Rightarrow> membership option" where
  "existingMembershipOf stu groupId =
     map_option (\<lambda>i. groups stu ! i) (membershipIndexOf stu groupId)"

text \<open>\<^verbatim>\<open>isActivatingNewSeat\<close>.\<close>

definition isActivatingNewSeat :: "membership option \<Rightarrow> bool" where
  "isActivatingNewSeat existingMembership =
     (case existingMembership of None \<Rightarrow> True | Some m \<Rightarrow> status m \<noteq> Active)"

text \<open>\<^verbatim>\<open>nextMembership\<close>, lines 842 to 852.\<close>

definition nextMembershipOf ::
  "oid \<Rightarrow> membership_payload \<Rightarrow> membership option \<Rightarrow> int \<Rightarrow> membership" where
  "nextMembershipOf groupId membershipPayload existingMembership t =
     \<lparr>mgroup = groupId, status = pstatus membershipPayload,
      joinedAt = (case pjoinedAt membershipPayload of
                    Some j \<Rightarrow> j
                  | None \<Rightarrow> (case existingMembership of
                               Some m \<Rightarrow> joinedAt m
                             | None \<Rightarrow> t)),
      mnote = (case pnote membershipPayload of
                 Some n \<Rightarrow> Some n
               | None \<Rightarrow> (case existingMembership of
                            Some m \<Rightarrow> mnote m
                          | None \<Rightarrow> None))\<rparr>"

text \<open>Lines 854 to 858: the new entry is pushed, or written at the index.\<close>

definition placeMembership :: "nat option \<Rightarrow> membership \<Rightarrow> membership list \<Rightarrow> membership list" where
  "placeMembership membershipIndex nextMembership gs =
     (case membershipIndex of
        None \<Rightarrow> gs @ [nextMembership]
      | Some i \<Rightarrow> gs[i := nextMembership])"

definition attachStudentToGroup ::
  "oid \<Rightarrow> oid \<Rightarrow> membership_body \<Rightarrow> ctx \<Rightarrow> state \<Rightarrow> response \<times> state" where
  "attachStudentToGroup groupId studentId body c st0 =
     (let st = runBalanceResetSafely c st0
      in if \<not> isValidObjectId groupId then ((400, ''Invalid group id''), st)
         else if \<not> isValidObjectId studentId then ((400, ''Invalid student id''), st)
         else case findGroupById st groupId of
           None \<Rightarrow> ((404, ''Group not found''), st)
         | Some grp \<Rightarrow>
         (case findStudentById st studentId of
           None \<Rightarrow> ((404, ''Student not found''), st)
         | Some stu \<Rightarrow>
           (let membershipIndex = membershipIndexOf stu groupId;
                existingMembership = existingMembershipOf stu groupId
            in case parseGroupMembershipPayload
                 (body\<lparr>bstatus := statusField body existingMembership\<rparr>) of
                 Inl err \<Rightarrow> ((400, err), st)
               | Inr membershipPayload \<Rightarrow>
                 if pstatus membershipPayload = Active \<and> gstatus grp \<in> set [GCompleted, GArchived]
                 then ((400, ''Cannot add active students to completed or archived groups''), st)
                 else if pstatus membershipPayload = Active \<and>
                         isActivatingNewSeat existingMembership \<and>
                         maxStudents grp \<le> real (countActiveStudentsForGroup st groupId (Some studentId))
                 then ((409, ''Group has reached maxStudents limit''), st)
                 else
                   (case saveStudent (now c)
                           (stu\<lparr>groups := placeMembership membershipIndex
                                   (nextMembershipOf groupId membershipPayload existingMembership (now c))
                                   (groups stu)\<rparr>) st of
                      Inl (ValidationError msg) \<Rightarrow> ((400, msg), st)
                    | Inl DuplicateKey \<Rightarrow> ((500, ''Internal server error''), st)
                    | Inr st' \<Rightarrow>
                        ((if membershipIndex = None then 201 else 200,
                          if membershipIndex = None
                          then ''Student attached to group successfully''
                          else ''Student group membership updated successfully''),
                         ensureStudentInGroupList groupId studentId st')))))"

definition detachStudentFromGroup :: "oid \<Rightarrow> oid \<Rightarrow> ctx \<Rightarrow> state \<Rightarrow> response \<times> state" where
  "detachStudentFromGroup groupId studentId c st0 =
     (let st = runBalanceResetSafely c st0
      in if \<not> isValidObjectId groupId then ((400, ''Invalid group id''), st)
         else if \<not> isValidObjectId studentId then ((400, ''Invalid student id''), st)
         else case findGroupById st groupId of
           None \<Rightarrow> ((404, ''Group not found''), st)
         | Some grp \<Rightarrow>
         (case findStudentById st studentId of
           None \<Rightarrow> ((404, ''Student not found''), st)
         | Some stu \<Rightarrow>
           (let previousGroupsCount = length (groups stu);
                stu' = stu\<lparr>groups := filter (\<lambda>groupItem. mgroup groupItem \<noteq> groupId) (groups stu)\<rparr>
            in if length (groups stu') = previousGroupsCount
               then ((404, ''Student is not attached to this group''), st)
               else case saveStudent (now c) stu' st of
                      Inl e \<Rightarrow> ((500, ''Internal server error''), st)
                    | Inr st' \<Rightarrow>
                        ((200, ''Student detached from group successfully''),
                         removeStudentFromGroupList groupId studentId st'))))"

text \<open>
  \<^verbatim>\<open>deleteGroup\<close>: the group is deleted, then the two bulk updates run on the students
  that refer to it: the \<^verbatim>\<open>$pull\<close> of the membership and the recomputation of
  \<^verbatim>\<open>groupAttached\<close>.
\<close>

definition deleteGroup :: "oid \<Rightarrow> ctx \<Rightarrow> state \<Rightarrow> response \<times> state" where
  "deleteGroup groupId c st0 =
     (let st = runBalanceResetSafely c st0
      in if \<not> isValidObjectId groupId then ((400, ''Invalid group id''), st)
         else case findGroupById st groupId of
           None \<Rightarrow> ((404, ''Group not found''), st)
         | Some deletedGroup \<Rightarrow>
           (let st1 = st\<lparr>Group := filter (\<lambda>g. gid g \<noteq> groupId) (Group st)\<rparr>;
                affectedStudentIds =
                  map sid (filter (\<lambda>d. list_ex (\<lambda>m. mgroup m = groupId) (groups d)) (Student st1));
                pulled = snd (updateMany (\<lambda>d. sid d \<in> set affectedStudentIds)
                   (\<lambda>d. d\<lparr>groups := filter (\<lambda>m. mgroup m \<noteq> groupId) (groups d)\<rparr>) (Student st1));
                recomputed = snd (updateMany (\<lambda>d. sid d \<in> set affectedStudentIds)
                   (\<lambda>d. d\<lparr>groupAttached :=
                            0 < length (filter (\<lambda>groupItem. status groupItem = Active) (groups d))\<rparr>)
                   pulled)
            in ((200, ''Group deleted successfully''),
                if affectedStudentIds = [] then st1 else st1\<lparr>Student := recomputed\<rparr>)))"

section \<open>Group controller: attendance\<close>

definition digitChar :: "nat \<Rightarrow> char" where
  "digitChar n = ''0123456789'' ! (n mod 10)"

text \<open>The decimal digits of a number, padded with zeros to a width.\<close>

fun padStart :: "nat \<Rightarrow> nat \<Rightarrow> string" where
  "padStart 0 n = []"
| "padStart (Suc w) n = padStart w (n div 10) @ [digitChar n]"

text \<open>
  The proleptic Gregorian year, month and day of a day number counted from
  1970-01-01, as \<^verbatim>\<open>Date.prototype.toISOString\<close> computes them in UTC.
\<close>

definition civilFromDays :: "int \<Rightarrow> int \<times> int \<times> int" where
  "civilFromDays z0 =
     (let z = z0 + 719468;
          era = z div 146097;
          doe = z mod 146097;
          yoe = (doe - doe div 1460 + doe div 36524 - doe div 146096) div 365;
          doy = doe - (365 * yoe + yoe div 4 - yoe div 100);
          mp = (5 * doy + 2) div 153;
          d = doy - (153 * mp + 2) div 5 + 1;
          m = (if mp < 10 then mp + 3 else mp - 9);
          y = yoe + era * 400 + (if m \<le> 2 then 1 else 0)
      in (y, m, d))"

text \<open>
  The first ten characters of the ISO string: \<^verbatim>\<open>YYYY-MM-DD\<close> for the years 0 to 9999,
  and the sign, six digits of the year and the month for the others.
\<close>

definition isoPrefix10 :: "int \<Rightarrow> string" where
  "isoPrefix10 t =
     (case civilFromDays (t div 86400000) of
        (y, m, d) \<Rightarrow>
          take 10
            ((if 0 \<le> y \<and> y \<le> 9999 then padStart 4 (nat y)
              else (if y < 0 then CHR ''-'' else CHR ''+'') # padStart 6 (nat \<bar>y\<bar>))
             @ ''-'' @ padStart 2 (nat m) @ ''-'' @ padStart 2 (nat d)))"

text \<open>
  \<^verbatim>\<open>toDateKey\<close>: the empty string for a time value outside the range of
  \<^verbatim>\<open>Date\<close>, else \<^verbatim>\<open>toISOString().slice(0, 10)\<close>.
\<close>

definition toDateKey :: "int \<Rightarrow> string" where
  "toDateKey v =
     (if \<bar>v\<bar> > 8640000000000000 then [] else isoPrefix10 v)"

record attendance_record =
  rstudent :: string
  rstatus :: attendance_status
  rnote :: "string option"

text \<open>
  \<^verbatim>\<open>parseAttendanceRecords\<close> on a list of items whose status is one of the
  enumeration: \<open>None\<close> stands for \<^verbatim>\<open>undefined\<close> and for \<^verbatim>\<open>null\<close>, which the
  caller treats alike.
\<close>

definition parseAttendanceRecords ::
  "attendance_record list option \<Rightarrow> attendance_record list option" where
  "parseAttendanceRecords input =
     (case input of
        None \<Rightarrow> None
      | Some parsed \<Rightarrow>
          if parsed = [] then None
          else if list_ex (\<lambda>item. \<not> isValidObjectId (rstudent item)) parsed then None
          else Some parsed)"

text \<open>
  The test of \<^verbatim>\<open>findIndex\<close> in the loop over the records: the same student, and the
  same date key as the request's date.
\<close>

definition sameStudentAndDay :: "int \<Rightarrow> attendance_record \<Rightarrow> attendance_entry \<Rightarrow> bool" where
  "sameStudentAndDay d record item =
     (student item = rstudent record \<and> toDateKey (date item) = toDateKey d)"

text \<open>The \<^verbatim>\<open>payload\<close> of the loop.\<close>

definition attendancePayload :: "int \<Rightarrow> oid option \<Rightarrow> attendance_record \<Rightarrow> attendance_entry" where
  "attendancePayload d marker record =
     \<lparr>student = rstudent record, date = d, astatus = rstatus record,
      anote = rnote record, markedBy = marker\<rparr>"

text \<open>The body of the loop: replace in place, or append.\<close>

definition upsertRecord ::
  "int \<Rightarrow> oid option \<Rightarrow> attendance_entry list \<Rightarrow> attendance_record \<Rightarrow> attendance_entry list" where
  "upsertRecord d marker entries record =
     (let recordIndex = findIndex (sameStudentAndDay d record) entries;
          payload = attendancePayload d marker record
      in case recordIndex of
           None \<Rightarrow> entries @ [payload]
         | Some i \<Rightarrow> entries[i := payload])"

text \<open>
  The validators of the group schema that an attendance write can fail: the
  uniqueness of the student and day keys, and the length of a note.
\<close>

definition validateAttendance :: "attendance_entry list \<Rightarrow> string option" where
  "validateAttendance entries =
     (if \<not> distinct (map (\<lambda>item. student item @ ''::'' @ toDateKey (date item)) entries)
      then Some ''Attendance cannot contain duplicate records for the same student and day''
      else if list_ex (\<lambda>item. case anote item of None \<Rightarrow> False | Some n \<Rightarrow> 300 < length n) entries
      then Some ''attendance.note: maxlength''
      else None)"

definition upsertGroupAttendance ::
  "oid \<Rightarrow> date_input \<Rightarrow> attendance_record list option \<Rightarrow> oid option \<Rightarrow> ctx \<Rightarrow> state
     \<Rightarrow> response \<times> state" where
  "upsertGroupAttendance groupId dateIn recordsIn user c st0 =
     (let st = runBalanceResetSafely c st0
      in if \<not> isValidObjectId groupId then ((400, ''Invalid group id''), st)
         else case (parseDateValue dateIn, parseAttendanceRecords recordsIn) of
           (Some d, Some records) \<Rightarrow>
             (let studentIds = map rstudent records
              in if \<not> distinct studentIds
                 then ((400, ''records cannot contain duplicate students for the same request''), st)
                 else case findGroupById st groupId of
                   None \<Rightarrow> ((404, ''Group not found''), st)
                 | Some grp \<Rightarrow>
                   (let activeMembers =
                          filter (\<lambda>s. sid s \<in> set studentIds \<and>
                                       list_ex (\<lambda>m. mgroup m = groupId \<and> status m = Active) (groups s))
                            (Student st)
                    in if length activeMembers \<noteq> length studentIds
                       then ((400, ''All attendance students must be active members of the group''), st)
                       else
                         (let entries = foldl (upsertRecord d user) (attendance grp) records
                          in case validateAttendance entries of
                               Some msg \<Rightarrow> ((400, msg), st)
                             | None \<Rightarrow>
                                 ((200, ''Attendance updated successfully''),
                                  st\<lparr>Group := map (\<lambda>g. if gid g = groupId
                                                        then g\<lparr>attendance := entries\<rparr> else g)
                                                (Group st)\<rparr>))))
         | _ \<Rightarrow> ((400, ''date and records are required, records must be a non-empty array''), st))"

section \<open>Student controller\<close>

text \<open>
  The \<^verbatim>\<open>groups\<close> field of a request body after \<^verbatim>\<open>JSON.parse\<close>: absent, a value
  that is no array, or an array whose items are taken as trimmed strings.
\<close>

datatype groups_input = GroupsUndefined | GroupsNotArray | GroupsArray "string list"

datatype parsed_ids = Undefined | Null | Ids "string list"

text \<open>The elements of a JavaScript \<^verbatim>\<open>Set\<close>, in the order of their first insertion.\<close>

definition uniqueInOrder :: "'a list \<Rightarrow> 'a list" where
  "uniqueInOrder xs = rev (remdups (rev xs))"

definition parseGroupIds :: "groups_input \<Rightarrow> parsed_ids" where
  "parseGroupIds input =
     (case input of
        GroupsUndefined \<Rightarrow> Undefined
      | GroupsNotArray \<Rightarrow> Null
      | GroupsArray normalizedIds \<Rightarrow>
          if list_ex (\<lambda>groupId. groupId = [] \<or> \<not> isValidObjectId groupId) normalizedIds then Null
          else if length (uniqueInOrder normalizedIds) \<noteq> length normalizedIds then Null
          else Ids (uniqueInOrder normalizedIds))"

text \<open>
  \<^verbatim>\<open>toStudentGroupMemberships\<close>, with the defaults of the schema for the fields it
  leaves out.
\<close>

definition toStudentGroupMemberships :: "int \<Rightarrow> oid list \<Rightarrow> membership list" where
  "toStudentGroupMemberships t groupIds =
     map (\<lambda>groupId. \<lparr>mgroup = groupId, status = Active, joinedAt = t, mnote = None\<rparr>) groupIds"

definition normalizeObjectIdArray :: "string list \<Rightarrow> oid list" where
  "normalizeObjectIdArray values =
     uniqueInOrder (filter (\<lambda>v. v \<noteq> [] \<and> isValidObjectId v) values)"

definition syncGroupStudentLinks :: "oid \<Rightarrow> oid list \<Rightarrow> oid list \<Rightarrow> state \<Rightarrow> state" where
  "syncGroupStudentLinks studentId previousGroupIds nextGroupIds st =
     (let previousSet = uniqueInOrder previousGroupIds;
          nextSet = uniqueInOrder nextGroupIds;
          groupsToAdd = filter (\<lambda>groupId. groupId \<notin> set previousSet) nextSet;
          groupsToRemove = filter (\<lambda>groupId. groupId \<notin> set nextSet) previousSet;
          st1 = (if groupsToAdd \<noteq> []
                 then st\<lparr>Group := map (\<lambda>g.
                        if gid g \<in> set groupsToAdd
                        then (let currentStudents = normalizeObjectIdArray (students g)
                              in g\<lparr>students :=
                                    (if studentId \<in> set currentStudents then currentStudents
                                     else currentStudents @ [studentId])\<rparr>)
                        else g) (Group st)\<rparr>
                 else st)
      in if groupsToRemove \<noteq> []
         then st1\<lparr>Group := map (\<lambda>g.
                if gid g \<in> set groupsToRemove
                then g\<lparr>students := filter (\<lambda>i. i \<noteq> studentId)
                                       (normalizeObjectIdArray (students g))\<rparr>
                else g) (Group st1)\<rparr>
         else st1)"

text \<open>
  \<^verbatim>\<open>countActiveMembershipsByGroupIds\<close>: the aggregation keeps the students with an
  active membership in one of the groups (the excluded student apart), unwinds their
  memberships and counts, for each group, the active ones.
\<close>

definition countActiveMembershipsByGroupIds ::
  "state \<Rightarrow> oid list \<Rightarrow> oid option \<Rightarrow> (oid \<rightharpoonup> nat)" where
  "countActiveMembershipsByGroupIds st groupIds excludeStudentId =
     (if groupIds = [] then Map.empty
      else (\<lambda>g.
        let matched = filter
              (\<lambda>d. list_ex (\<lambda>m. mgroup m \<in> set groupIds \<and> status m = Active) (groups d) \<and>
                   (case excludeStudentId of
                      None \<Rightarrow> True
                    | Some e \<Rightarrow> if e \<noteq> [] \<and> isValidObjectId e then sid d \<noteq> e else True))
              (Student st);
            studentsCount = sum_list (map
              (\<lambda>d. length (filter (\<lambda>m. mgroup m = g \<and> status m = Active) (groups d))) matched)
        in if g \<in> set groupIds \<and> 0 < studentsCount then Some studentsCount else None))"

text \<open>\<^verbatim>\<open>Array.prototype.join\<close>.\<close>

fun join :: "string \<Rightarrow> string list \<Rightarrow> string" where
  "join sep [] = []"
| "join sep [x] = x"
| "join sep (x # y # ys) = x @ sep @ join sep (y # ys)"

text \<open>
  \<^verbatim>\<open>validateGroupAssignments\<close>: \<open>None\<close> when the assignment is allowed, else the
  status code and the message of the refusal.
\<close>

definition validateGroupAssignments :: "state \<Rightarrow> oid list \<Rightarrow> oid option \<Rightarrow> response option" where
  "validateGroupAssignments st groupIds excludeStudentId =
     (if groupIds = [] then None
      else
        (let groupDocs = filter (\<lambda>g. gid g \<in> set groupIds) (Group st)
         in if length groupDocs \<noteq> length groupIds
            then (let missing = filter (\<lambda>groupId. groupId \<notin> set (map gid groupDocs)) groupIds
                  in Some (400, ''One or more groups were not found: '' @ join '', '' missing))
            else
              (let groupsById = (\<lambda>i. find (\<lambda>g. gid g = i) (rev groupDocs));
                   activeGroupIds = uniqueInOrder groupIds
               in case find (\<lambda>activeGroupId.
                          case groupsById activeGroupId of
                            None \<Rightarrow> False
                          | Some linkedGroup \<Rightarrow> gstatus linkedGroup \<in> set [GCompleted, GArchived])
                        activeGroupIds of
                    Some activeGroupId \<Rightarrow>
                      Some (400, ''Cannot attach an active student membership to completed or archived groups'')
                  | None \<Rightarrow>
                     (let activeCounts =
                            countActiveMembershipsByGroupIds st activeGroupIds excludeStudentId
                      in case find (\<lambda>activeGroupId.
                                 case groupsById activeGroupId of
                                   None \<Rightarrow> False
                                 | Some linkedGroup \<Rightarrow>
                                     maxStudents linkedGroup \<le>
                                       real (case activeCounts activeGroupId of
                                               None \<Rightarrow> 0 | Some n \<Rightarrow> n))
                               activeGroupIds of
                           Some activeGroupId \<Rightarrow>
                             Some (409, ''Group '' @ activeGroupId @ '' has reached maxStudents limit'')
                         | None \<Rightarrow> None))))"

text \<open>\<^verbatim>\<open>parseBirthDate\<close>.\<close>

definition parseBirthDate :: "date_input \<Rightarrow> int option" where
  "parseBirthDate v = (case v of GoodDate t \<Rightarrow> Some t | _ \<Rightarrow> None)"

text \<open>
  The body of a create request: the strings are the values after
  \<^verbatim>\<open>String(x || '').trim()\<close> (and \<^verbatim>\<open>toLowerCase\<close> for the gender).
\<close>

record create_body =
  cfullname :: string
  cstudentPhone :: string
  cparentPhone :: string
  cgender :: string
  cbirthDate :: date_input
  cpassword :: string
  cnote :: "string option"
  cgroups :: groups_input

text \<open>The checks of the scalar fields, lines 245 to 262 of the controller.\<close>

definition createFieldError :: "create_body \<Rightarrow> string option" where
  "createFieldError body =
     (if cfullname body = [] \<or> cstudentPhone body = [] \<or> cparentPhone body = [] \<or>
         cgender body = [] \<or> parseBirthDate (cbirthDate body) = None \<or> cpassword body = []
      then Some ''fullname, studentPhone, parentPhone, gender, birthDate and password are required''
      else if cgender body \<notin> set [''male'', ''female'']
      then Some ''Gender must be male or female''
      else if \<not> PHONE_PATTERN (cstudentPhone body) \<or> \<not> PHONE_PATTERN (cparentPhone body)
      then Some ''Phone must contain 7-15 digits''
      else if length (cpassword body) < 8
      then Some ''Password must be at least 8 characters''
      else None)"

text \<open>
  \<^verbatim>\<open>studentPayload\<close>, with the defaults of the schema for the fields that the
  controller leaves out.
\<close>

definition studentPayloadOf :: "create_body \<Rightarrow> ctx \<Rightarrow> student_doc" where
  "studentPayloadOf body c =
     \<lparr>sid = newId c, fullname = cfullname body, studentPhone = cstudentPhone body,
      parentPhone = cparentPhone body, groupAttached = False,
      gender = cgender body,
      birthDate = (case parseBirthDate (cbirthDate body) of Some t \<Rightarrow> t | None \<Rightarrow> 0),
      snote = (case cnote body of None \<Rightarrow> None | Some n \<Rightarrow> if n = [] then None else Some n),
      password = Some (bcryptHash c (cpassword body)),
      balance = 0, balanceResetAt = Some (now c), coinBalance = 0,
      groups = (case parseGroupIds (cgroups body) of
                  Ids ids \<Rightarrow> toStudentGroupMemberships (now c) ids
                | _ \<Rightarrow> [])\<rparr>"

text \<open>The \<^verbatim>\<open>groups\<close> of a body as a list: empty when the body has none.\<close>

definition idsOf :: "parsed_ids \<Rightarrow> oid list" where
  "idsOf p = (case p of Ids ids \<Rightarrow> ids | _ \<Rightarrow> [])"

definition createStudent :: "create_body \<Rightarrow> ctx \<Rightarrow> state \<Rightarrow> response \<times> state" where
  "createStudent body c st0 =
     (let st = runBalanceResetSafely c st0;
          groupsP = parseGroupIds (cgroups body)
      in case createFieldError body of
           Some msg \<Rightarrow> ((400, msg), st)
         | None \<Rightarrow>
         if cgroups body \<noteq> GroupsUndefined \<and> groupsP = Null
         then ((400, ''groups must be an array of group ObjectId strings''), st)
         else case validateGroupAssignments st (idsOf groupsP) None of
           Some groupValidation \<Rightarrow> (groupValidation, st)
         | None \<Rightarrow>
           if list_ex (\<lambda>d. studentPhone d = cstudentPhone body) (Student st)
           then ((409, ''Student with this phone number already exists''), st)
           else
             (case createStudentDoc (now c) (studentPayloadOf body c) st of
                Inl DuplicateKey \<Rightarrow> ((409, ''Student with this phone number already exists''), st)
              | Inl (ValidationError msg) \<Rightarrow> ((400, msg), st)
              | Inr st' \<Rightarrow>
                  ((201, ''Student created successfully''),
                   (if idsOf groupsP \<noteq> []
                    then syncGroupStudentLinks (newId c) [] (idsOf groupsP) st'
                    else st'))))"

text \<open>\<^verbatim>\<open>Number(x)\<close> of a body field: a finite number, or \<^verbatim>\<open>NaN\<close> or an infinity.\<close>

datatype jsnum = NotFinite | Finite real

definition isPositiveInteger :: "jsnum \<Rightarrow> bool" where
  "isPositiveInteger v =
     (case v of NotFinite \<Rightarrow> False | Finite x \<Rightarrow> of_int \<lfloor>x\<rfloor> = x \<and> 0 < x)"

definition rewardStudentCoins ::
  "oid \<Rightarrow> jsnum \<Rightarrow> string option \<Rightarrow> ctx \<Rightarrow> state \<Rightarrow> response \<times> state" where
  "rewardStudentCoins studentId amount noteIn c st0 =
     (let st = runBalanceResetSafely c st0
      in if \<not> isValidObjectId studentId then ((400, ''Invalid student id''), st)
         else if \<not> isPositiveInteger amount then ((400, ''amount must be a positive integer''), st)
         else if (case noteIn of None \<Rightarrow> False | Some n \<Rightarrow> 300 < length n)
         then ((400, ''note must be 300 characters or less''), st)
         else case findStudentById st studentId of
           None \<Rightarrow> ((404, ''Student not found''), st)
         | Some stu \<Rightarrow>
           (case saveStudent (now c)
                   (stu\<lparr>coinBalance := coinBalance stu + (case amount of Finite x \<Rightarrow> x | NotFinite \<Rightarrow> 0)\<rparr>) st of
              Inl (ValidationError msg) \<Rightarrow> ((400, msg), st)
            | Inl DuplicateKey \<Rightarrow> ((500, ''Internal server error''), st)
            | Inr st' \<Rightarrow> ((200, ''Student rewarded with coins successfully''), st')))"

text \<open>The body of an update request; \<open>None\<close> is a field that the body does not have.\<close>

record update_body =
  ufullname :: "string option"
  ustudentPhone :: "string option"
  uparentPhone :: "string option"
  ugender :: "string option"
  ubirthDate :: "date_input option"
  unote :: "string option"
  ubalance :: "jsnum option"
  ucoinBalance :: "jsnum option"
  upassword :: "string option"
  ugroups :: groups_input

text \<open>\<^verbatim>\<open>Object.assign(student, updatePayload)\<close>.\<close>

definition assignPayload :: "update_body \<Rightarrow> ctx \<Rightarrow> student_doc \<Rightarrow> student_doc" where
  "assignPayload body c s =
     s\<lparr>fullname := (case ufullname body of None \<Rightarrow> fullname s | Some v \<Rightarrow> v),
       studentPhone := (case ustudentPhone body of None \<Rightarrow> studentPhone s | Some v \<Rightarrow> v),
       parentPhone := (case uparentPhone body of None \<Rightarrow> parentPhone s | Some v \<Rightarrow> v),
       gender := (case ugender body of None \<Rightarrow> gender s | Some v \<Rightarrow> v),
       birthDate := (case ubirthDate body of
                       Some (GoodDate t) \<Rightarrow> t | _ \<Rightarrow> birthDate s),
       snote := (case unote body of None \<Rightarrow> snote s | Some v \<Rightarrow> Some v),
       balance := (case ubalance body of Some (Finite x) \<Rightarrow> x | _ \<Rightarrow> balance s),
       coinBalance := (case ucoinBalance body of Some (Finite x) \<Rightarrow> x | _ \<Rightarrow> coinBalance s),
       password := (case upassword body of
                      None \<Rightarrow> password s | Some pw \<Rightarrow> Some (bcryptHash c pw)),
       groups := (case parseGroupIds (ugroups body) of
                    Ids ids \<Rightarrow> toStudentGroupMemberships (now c) ids
                  | _ \<Rightarrow> groups s)\<rparr>"

text \<open>
  The checks of the scalar fields of an update, lines 505 to 577 of the controller, in
  their order.
\<close>

definition updateFieldError :: "update_body \<Rightarrow> string option" where
  "updateFieldError body =
     (if ufullname body = Some [] then Some ''fullname cannot be empty''
      else if (case ustudentPhone body of None \<Rightarrow> False | Some v \<Rightarrow> \<not> PHONE_PATTERN v)
      then Some ''Invalid studentPhone format''
      else if (case uparentPhone body of None \<Rightarrow> False | Some v \<Rightarrow> \<not> PHONE_PATTERN v)
      then Some ''Invalid parentPhone format''
      else if (case ugender body of None \<Rightarrow> False | Some v \<Rightarrow> v \<notin> set [''male'', ''female''])
      then Some ''Gender must be male or female''
      else if (case ubirthDate body of None \<Rightarrow> False | Some v \<Rightarrow> parseBirthDate v = None)
      then Some ''Invalid birthDate value''
      else if (case ubalance body of
                 None \<Rightarrow> False | Some NotFinite \<Rightarrow> True | Some (Finite x) \<Rightarrow> x < 0)
      then Some ''balance must be a non-negative number''
      else if (case ucoinBalance body of
                 None \<Rightarrow> False | Some NotFinite \<Rightarrow> True | Some (Finite x) \<Rightarrow> x < 0)
      then Some ''coinBalance must be a non-negative number''
      else if (case upassword body of None \<Rightarrow> False | Some pw \<Rightarrow> length pw < 8)
      then Some ''Password must be at least 8 characters''
      else None)"

definition updateStudent :: "oid \<Rightarrow> update_body \<Rightarrow> ctx \<Rightarrow> state \<Rightarrow> response \<times> state" where
  "updateStudent studentId body c st0 =
     (let st = runBalanceResetSafely c st0
      in if \<not> isValidObjectId studentId then ((400, ''Invalid student id''), st)
         else case updateFieldError body of
           Some msg \<Rightarrow> ((400, msg), st)
         | None \<Rightarrow>
         if ugroups body \<noteq> GroupsUndefined \<and> parseGroupIds (ugroups body) = Null
         then ((400, ''groups must be an array of group ObjectId strings''), st)
         else case validateGroupAssignments st (idsOf (parseGroupIds (ugroups body))) (Some studentId) of
           Some groupValidation \<Rightarrow> (groupValidation, st)
         | None \<Rightarrow>
           (case findStudentById st studentId of
              None \<Rightarrow> ((404, ''Student not found''), st)
            | Some stu \<Rightarrow>
              (let previousGroupIds = map mgroup (groups stu)
               in case saveStudent (now c) (assignPayload body c stu) st of
                    Inl DuplicateKey \<Rightarrow> ((409, ''Student with this phone number already exists''), st)
                  | Inl (ValidationError msg) \<Rightarrow> ((400, msg), st)
                  | Inr st' \<Rightarrow>
                      ((200, ''Student updated successfully''),
                       (if ugroups body \<noteq> GroupsUndefined
                        then syncGroupStudentLinks studentId previousGroupIds
                               (map mgroup (groups (assignPayload body c stu))) st'
                        else st')))))"

definition deleteStudent :: "oid \<Rightarrow> ctx \<Rightarrow> state \<Rightarrow> response \<times> state" where
  "deleteStudent studentId c st0 =
     (let st = runBalanceResetSafely c st0
      in if \<not> isValidObjectId studentId then ((400, ''Invalid student id''), st)
         else case findStudentById st studentId of
           None \<Rightarrow> ((404, ''Student not found''), st)
         | Some deletedStudent \<Rightarrow>
           (let st1 = st\<lparr>Student := filter (\<lambda>d. sid d \<noteq> studentId) (Student st)\<rparr>;
                previousGroupIds = map mgroup (groups deletedStudent)
            in ((200, ''Student deleted successfully''),
                if previousGroupIds \<noteq> [] then syncGroupStudentLinks studentId previousGroupIds [] st1
                else st1)))"

section \<open>Requests\<close>

text \<open>
  The operations of the engine that write to the store, and the timer of the
  balance-reset job, which calls the sweep with \<^verbatim>\<open>force: true\<close>.
\<close>

datatype request =
    CreateStudent create_body
  | UpdateStudent oid update_body
  | DeleteStudent oid
  | RewardStudentCoins oid jsnum "string option"
  | AttachStudentToGroup oid oid membership_body
  | DetachStudentFromGroup oid oid
  | DeleteGroup oid
  | UpsertGroupAttendance oid date_input "attendance_record list option" "oid option"
  | ResetJob

definition handle :: "request \<Rightarrow> ctx \<Rightarrow> state \<Rightarrow> state" where
  "handle req c st =
     (case req of
        CreateStudent body \<Rightarrow> snd (createStudent body c st)
      | UpdateStudent studentId body \<Rightarrow> snd (updateStudent studentId body c st)
      | DeleteStudent studentId \<Rightarrow> snd (deleteStudent studentId c st)
      | RewardStudentCoins studentId amount noteIn \<Rightarrow>
          snd (rewardStudentCoins studentId amount noteIn c st)
      | AttachStudentToGroup groupId studentId body \<Rightarrow>
          snd (attachStudentToGroup groupId studentId body c st)
      | DetachStudentFromGroup groupId studentId \<Rightarrow>
          snd (detachStudentFromGroup groupId studentId c st)
      | DeleteGroup groupId \<Rightarrow> snd (deleteGroup groupId c st)
      | UpsertGroupAttendance groupId dateIn recordsIn user \<Rightarrow>
          snd (upsertGroupAttendance groupId dateIn recordsIn user c st)
      | ResetJob \<Rightarrow> snd (resetStudentBalancesIfNeeded True c st))"

section \<open>Serialization of a student\<close>

datatype json =
    JString string
  | JNumber real
  | JBool bool
  | JDate int
  | JArray "json list"
  | JObject "(string \<times> json) list"

text \<open>An optional field is a key of the object only when the document has it.\<close>

definition optField :: "string \<Rightarrow> ('a \<Rightarrow> json) \<Rightarrow> 'a option \<Rightarrow> (string \<times> json) list" where
  "optField k f v = (case v of None \<Rightarrow> [] | Some x \<Rightarrow> [(k, f x)])"

definition membershipObject :: "membership \<Rightarrow> json" where
  "membershipObject m =
     JObject ([(''group'', JString (mgroup m)),
               (''status'', JString (stringOfStatus (status m))),
               (''joinedAt'', JDate (joinedAt m))] @ optField ''note'' JString (mnote m))"

text \<open>The plain object that the transform receives as \<^verbatim>\<open>ret\<close>.\<close>

definition plainObject :: "student_doc \<Rightarrow> (string \<times> json) list" where
  "plainObject s =
     [(''_id'', JString (sid s)),
      (''fullname'', JString (fullname s)),
      (''studentPhone'', JString (studentPhone s)),
      (''parentPhone'', JString (parentPhone s)),
      (''groupAttached'', JBool (groupAttached s)),
      (''gender'', JString (gender s)),
      (''birthDate'', JDate (birthDate s))]
     @ optField ''note'' JString (snote s)
     @ optField ''password'' JString (password s)
     @ [(''balance'', JNumber (balance s))]
     @ optField ''balanceResetAt'' JDate (balanceResetAt s)
     @ [(''coinBalance'', JNumber (coinBalance s)),
        (''groups'', JArray (map membershipObject (groups s)))]"

text \<open>The \<^verbatim>\<open>delete\<close> operator on a key of an object.\<close>

definition deleteKey :: "string \<Rightarrow> (string \<times> json) list \<Rightarrow> (string \<times> json) list" where
  "deleteKey k ret = filter (\<lambda>kv. fst kv \<noteq> k) ret"

definition hideSensitiveFields :: "(string \<times> json) list \<Rightarrow> (string \<times> json) list" where
  "hideSensitiveFields ret = deleteKey ''balanceResetAt'' (deleteKey ''password'' ret)"

text \<open>\<^verbatim>\<open>toJSON\<close> and \<^verbatim>\<open>toObject\<close> are both set to the transform.\<close>

definition toJSON :: "student_doc \<Rightarrow> (string \<times> json) list" where
  "toJSON s = hideSensitiveFields (plainObject s)"

definition toObject :: "student_doc \<Rightarrow> (string \<times> json) list" where
  "toObject s = hideSensitiveFields (plainObject s)"

section \<open>Interleaved sweeps\<close>

text \<open>
  A call of the sweep gives up control at its \<^verbatim>\<open>await\<close>, between \<open>sweepEnter\<close> and
  the end of \<open>sweepBody\<close>, and other calls and other requests run in between. The
  states that the process reaches are paired with the number of sweeps that have
  entered and not yet finished.
\<close>

inductive_set sched :: "(state \<times> nat) set" where
  idle: "\<not> isResetRunning st \<Longrightarrow> (st, 0) \<in> sched"
| skip: "(st, n) \<in> sched \<Longrightarrow> sweepEnter force c st = (Some r, st') \<Longrightarrow> (st', n) \<in> sched"
| start: "(st, n) \<in> sched \<Longrightarrow> sweepEnter force c st = (None, st') \<Longrightarrow> (st', Suc n) \<in> sched"
| finish: "(st, Suc n) \<in> sched \<Longrightarrow> (snd (sweepBody c st), n) \<in> sched"
| other: "(st, n) \<in> sched \<Longrightarrow> (st\<lparr>Student := ds, Group := gs\<rparr>, n) \<in> sched"

section \<open>Example data\<close>

definition DAY_MS :: int where
  "DAY_MS = 24 * 60 * 60 * 1000"

definition ex_ctx :: ctx where
  "ex_ctx = \<lparr>now = 100 * DAY_MS, envMinGap = None, storeFails = False,
             newId = ''dddddddddddddddddddddddd'', bcryptHash = (\<lambda>pw. ''$2b$12$'' @ pw)\<rparr>"

definition ex_student :: "oid \<Rightarrow> string \<Rightarrow> student_doc" where
  "ex_student i phone =
     \<lparr>sid = i, fullname = ''Student'', studentPhone = phone, parentPhone = ''+998900000000'',
      groupAttached = False, gender = ''male'', birthDate = 0, snote = None, password = None,
      balance = 0, balanceResetAt = Some (98 * DAY_MS), coinBalance = 0, groups = []\<rparr>"

definition ex_A :: oid where "ex_A = ''aaaaaaaaaaaaaaaaaaaaaaaa''"
definition ex_B :: oid where "ex_B = ''bbbbbbbbbbbbbbbbbbbbbbbb''"
definition ex_C :: oid where "ex_C = ''cccccccccccccccccccccccc''"
definition ex_g1 :: oid where "ex_g1 = ''111111111111111111111111''"

text \<open>
  Two students at day 100: the balance of the first was reset 31 days ago, the balance
  of the second 2 days ago.
\<close>

definition ex_sweep_state :: state where
  "ex_sweep_state =
     \<lparr>Student = [(ex_student ex_A ''+998900000001'')
                    \<lparr>balance := 5000, balanceResetAt := Some (69 * DAY_MS)\<rparr>,
                 (ex_student ex_B ''+998900000002'')\<lparr>balance := 700\<rparr>],
      Group = [], isResetRunning = False, lastResetRunAt = 0\<rparr>"

definition ex_U :: oid where "ex_U = ''eeeeeeeeeeeeeeeeeeeeeeee''"

definition ex_group :: "oid \<Rightarrow> group_status \<Rightarrow> real \<Rightarrow> group_doc" where
  "ex_group i s m = \<lparr>gid = i, gstatus = s, maxStudents = m, students = [], attendance = []\<rparr>"

definition ex_member :: "oid \<Rightarrow> string \<Rightarrow> oid \<Rightarrow> membership_status \<Rightarrow> student_doc" where
  "ex_member i phone g s =
     (ex_student i phone)\<lparr>groupAttached := (s = Active),
        groups := [\<lparr>mgroup = g, status = s, joinedAt = 90 * DAY_MS, mnote = None\<rparr>]\<rparr>"




section \<open>Properties of states\<close>

text \<open>The derived flag of one student, and of every student of the store.\<close>

definition derivedOk :: "student_doc \<Rightarrow> bool" where
  "derivedOk s = (groupAttached s = list_ex (\<lambda>m. status m = Active) (groups s))"

definition groupAttachedDerived :: "state \<Rightarrow> bool" where
  "groupAttachedDerived st = list_all derivedOk (Student st)"

text \<open>
  The states that the engine reaches from an empty student collection: by its requests,
  and by the edits of group documents that the group endpoints make.
\<close>

inductive_set reachable :: "state set" where
  init: "\<lparr>Student = [], Group = gs, isResetRunning = False, lastResetRunAt = 0\<rparr> \<in> reachable"
| step: "st \<in> reachable \<Longrightarrow> handle req c st \<in> reachable"
| edit: "st \<in> reachable \<Longrightarrow> st\<lparr>Group := gs\<rparr> \<in> reachable"



section \<open>Further example data\<close>

definition ex_init :: state where
  "ex_init = \<lparr>Student = [], Group = [ex_group ex_g1 GActive 2],
              isResetRunning = False, lastResetRunAt = 0\<rparr>"

definition ex_create_body :: create_body where
  "ex_create_body =
     \<lparr>cfullname = ''Ali Valiyev'', cstudentPhone = ''+998901234567'',
      cparentPhone = ''+998907654321'', cgender = ''male'', cbirthDate = GoodDate 0,
      cpassword = ''secret123'', cnote = None, cgroups = GroupsArray [ex_g1]\<rparr>"



definition ex_created :: student_doc where
  "ex_created =
     \<lparr>sid = ''dddddddddddddddddddddddd'', fullname = ''Ali Valiyev'',
      studentPhone = ''+998901234567'', parentPhone = ''+998907654321'',
      groupAttached = True, gender = ''male'', birthDate = 0, snote = None,
      password = Some ''$2b$12$secret123'', balance = 0,
      balanceResetAt = Some (100 * DAY_MS), coinBalance = 0,
      groups = [\<lparr>mgroup = ex_g1, status = Active, joinedAt = 100 * DAY_MS, mnote = None\<rparr>]\<rparr>"

section \<open>Well-formed documents and closed groups\<close>





section \<open>Example data for memberships\<close>

definition ex_missing :: oid where "ex_missing = ''999999999999999999999999''"

definition ex_joined :: "oid \<Rightarrow> string \<Rightarrow> student_doc" where
  "ex_joined i phone =
     (ex_student i phone)\<lparr>groupAttached := True,
        groups := [\<lparr>mgroup = ex_g1, status = Active, joinedAt = 100 * DAY_MS, mnote = None\<rparr>]\<rparr>"

definition ex_body :: "string \<Rightarrow> membership_body" where
  "ex_body s = \<lparr>bstatus = Some s, bjoinedAt = NoDate, bnote = None\<rparr>"

text \<open>
  A group with two seats and three students without memberships, and the states of the
  scenario: A attached, B attached, A detached, C attached.
\<close>

definition ex_cap0 :: state where
  "ex_cap0 =
     \<lparr>Student = [ex_student ex_A ''+998900000001'', ex_student ex_B ''+998900000002'',
                 ex_student ex_C ''+998900000003''],
      Group = [ex_group ex_g1 GActive 2],
      isResetRunning = False, lastResetRunAt = 100 * DAY_MS\<rparr>"

definition ex_cap1 :: state where
  "ex_cap1 =
     \<lparr>Student = [ex_joined ex_A ''+998900000001'', ex_student ex_B ''+998900000002'',
                 ex_student ex_C ''+998900000003''],
      Group = [(ex_group ex_g1 GActive 2)\<lparr>students := [ex_A]\<rparr>],
      isResetRunning = False, lastResetRunAt = 100 * DAY_MS\<rparr>"

definition ex_cap2 :: state where
  "ex_cap2 =
     \<lparr>Student = [ex_joined ex_A ''+998900000001'', ex_joined ex_B ''+998900000002'',
                 ex_student ex_C ''+998900000003''],
      Group = [(ex_group ex_g1 GActive 2)\<lparr>students := [ex_A, ex_B]\<rparr>],
      isResetRunning = False, lastResetRunAt = 100 * DAY_MS\<rparr>"

definition ex_cap3 :: state where
  "ex_cap3 =
     \<lparr>Student = [ex_student ex_A ''+998900000001'', ex_joined ex_B ''+998900000002'',
                 ex_student ex_C ''+998900000003''],
      Group = [(ex_group ex_g1 GActive 2)\<lparr>students := [ex_B]\<rparr>],
      isResetRunning = False, lastResetRunAt = 100 * DAY_MS\<rparr>"

definition ex_cap4 :: state where
  "ex_cap4 =
     \<lparr>Student = [ex_student ex_A ''+998900000001'', ex_joined ex_B ''+998900000002'',
                 ex_joined ex_C ''+998900000003''],
      Group = [(ex_group ex_g1 GActive 2)\<lparr>students := [ex_B, ex_C]\<rparr>],
      isResetRunning = False, lastResetRunAt = 100 * DAY_MS\<rparr>"

text \<open>A completed group with one seat, taken by B.\<close>

definition ex_closed_state :: state where
  "ex_closed_state =
     \<lparr>Student = [ex_student ex_A ''+998900000001'', ex_joined ex_B ''+998900000002''],
      Group = [(ex_group ex_g1 GCompleted 1)\<lparr>students := [ex_B]\<rparr>],
      isResetRunning = False, lastResetRunAt = 100 * DAY_MS\<rparr>"





section \<open>The balance-reset sweep\<close>

lemma minGapMs_floor: "10000 \<le> minGapMs e"
  by (simp add: minGapMs_def)

lemma sweepBody_releases: "\<not> isResetRunning (snd (sweepBody c st))"
  by (simp add: sweepBody_def Let_def split: prod.splits)

lemma sweepEnter_Some: "sweepEnter force c st = (Some r, st') \<Longrightarrow> st' = st"
  by (auto simp: sweepEnter_def split: if_splits)

lemma sweepEnter_None:
  "sweepEnter force c st = (None, st') \<Longrightarrow> \<not> isResetRunning st \<and> isResetRunning st'"
  by (auto simp: sweepEnter_def split: if_splits)

lemma sweep_returned_docs:
  assumes "resetStudentBalancesIfNeeded force c st = (Returned (Swept matched modified), st')"
  shows "Student st' =
           map (\<lambda>d. if resetDue (now c - THIRTY_DAYS_MS) d then resetSet (now c) d else d)
             (Student st)"
    and "Group st' = Group st"
  using assms
  by (auto simp: resetStudentBalancesIfNeeded_def sweepEnter_def sweepBody_def Let_def
      updateMany_def split: if_splits prod.splits)

lemma ex_sweep_run:
  "resetStudentBalancesIfNeeded True ex_ctx ex_sweep_state =
     (Returned (Swept 1 1),
      ex_sweep_state\<lparr>Student :=
         [(ex_student ex_A ''+998900000001'')
            \<lparr>balance := 0, balanceResetAt := Some (100 * DAY_MS)\<rparr>,
          (ex_student ex_B ''+998900000002'')\<lparr>balance := 700\<rparr>],
         lastResetRunAt := 100 * DAY_MS\<rparr>)"
  by (simp add: resetStudentBalancesIfNeeded_def sweepEnter_def sweepBody_def updateMany_def
      resetDue_def resetSet_def ex_ctx_def ex_sweep_state_def ex_student_def DAY_MS_def
      THIRTY_DAYS_MS_def Let_def)

text \<open>
  Claim C4. A run of the sweep that returns a result with \<^verbatim>\<open>skipped: false\<close> keeps
  the collection's documents in place, and for each of them: when \<^verbatim>\<open>balanceResetAt\<close>
  is absent or at least 30 days before the clock, the document afterwards is the old
  one with \<^verbatim>\<open>balance = 0\<close> and \<^verbatim>\<open>balanceResetAt = now\<close>; otherwise the document is
  unchanged. The groups are not touched.
\<close>

theorem sweep_resets_exactly_due:
  assumes "resetStudentBalancesIfNeeded force c st = (Returned (Swept matched modified), st')"
  shows "length (Student st') = length (Student st) \<and> Group st' = Group st \<and>
         (\<forall>i < length (Student st).
            (if balanceResetAt (Student st ! i) = None \<or>
                (\<exists>t. balanceResetAt (Student st ! i) = Some t \<and> THIRTY_DAYS_MS \<le> now c - t)
             then Student st' ! i = (Student st ! i)\<lparr>balance := 0, balanceResetAt := Some (now c)\<rparr>
                  \<and> balance (Student st' ! i) = 0
                  \<and> balanceResetAt (Student st' ! i) = Some (now c)
             else Student st' ! i = Student st ! i))"
proof -
  note d = sweep_returned_docs[OF assms]
  show ?thesis
    unfolding d
    by (auto simp: resetDue_def resetSet_def split: option.splits)
qed

theorem sweep_resets_exactly_due_witness:
  "resetStudentBalancesIfNeeded True ex_ctx ex_sweep_state =
     (Returned (Swept 1 1),
      ex_sweep_state\<lparr>Student :=
         [(ex_student ex_A ''+998900000001'')
            \<lparr>balance := 0, balanceResetAt := Some (100 * DAY_MS)\<rparr>,
          (ex_student ex_B ''+998900000002'')\<lparr>balance := 700\<rparr>],
         lastResetRunAt := 100 * DAY_MS\<rparr>)
   \<and> balance (Student ex_sweep_state ! 0) = 5000
   \<and> balanceResetAt (Student ex_sweep_state ! 0) = Some (now ex_ctx - 31 * DAY_MS)
   \<and> balanceResetAt (Student ex_sweep_state ! 1) = Some (now ex_ctx - 2 * DAY_MS)
   \<and> balance (Student (snd (resetStudentBalancesIfNeeded True ex_ctx ex_sweep_state)) ! 0) = 0
   \<and> balanceResetAt (Student (snd (resetStudentBalancesIfNeeded True ex_ctx ex_sweep_state)) ! 0)
        = Some (now ex_ctx)
   \<and> Student (snd (resetStudentBalancesIfNeeded True ex_ctx ex_sweep_state)) ! 1
        = Student ex_sweep_state ! 1"
  using sweep_resets_exactly_due[OF ex_sweep_run] ex_sweep_run
  by (simp add: ex_sweep_state_def ex_student_def ex_ctx_def DAY_MS_def)

text \<open>
  Claim C5. The minimum gap is the configured value, or five minutes when none is
  configured, and never less than ten seconds. A call without \<^verbatim>\<open>force\<close> that comes
  less than this gap after \<^verbatim>\<open>lastResetRunAt\<close> returns \<^verbatim>\<open>skipped\<close> with the reason
  \<^verbatim>\<open>throttled\<close> and leaves the whole state, the store and the variables of the
  scheduler, as it was. In particular a call that follows a sweep that ran (to its
  result or to an error) by less than the gap is throttled.
\<close>

theorem throttled_call_skips:
  "(real_of_int (now c - lastResetRunAt st) < minGapMs (envMinGap c) \<longrightarrow>
      resetStudentBalancesIfNeeded False c st = (Returned (Skipped ''throttled''), st))
   \<and> (sweepEnter force1 c1 st = (None, st1) \<and>
        real_of_int (now c - now c1) < minGapMs (envMinGap c) \<longrightarrow>
      resetStudentBalancesIfNeeded False c (snd (sweepBody c1 st1))
        = (Returned (Skipped ''throttled''), snd (sweepBody c1 st1)))
   \<and> minGapMs (envMinGap c) =
        max (case envMinGap c of None \<Rightarrow> 300000 | Some v \<Rightarrow> if v = 0 then 300000 else v) 10000"
proof (intro conjI impI)
  assume "real_of_int (now c - lastResetRunAt st) < minGapMs (envMinGap c)"
  then show "resetStudentBalancesIfNeeded False c st = (Returned (Skipped ''throttled''), st)"
    by (simp add: resetStudentBalancesIfNeeded_def sweepEnter_def)
next
  assume a: "sweepEnter force1 c1 st = (None, st1) \<and>
        real_of_int (now c - now c1) < minGapMs (envMinGap c)"
  then have l: "lastResetRunAt st1 = now c1"
    by (auto simp: sweepEnter_def split: if_splits)
  have "lastResetRunAt (snd (sweepBody c1 st1)) = lastResetRunAt st1"
    by (simp add: sweepBody_def Let_def split: prod.splits)
  with l a show "resetStudentBalancesIfNeeded False c (snd (sweepBody c1 st1))
        = (Returned (Skipped ''throttled''), snd (sweepBody c1 st1))"
    by (simp add: resetStudentBalancesIfNeeded_def sweepEnter_def)
next
  show "minGapMs (envMinGap c) =
        max (case envMinGap c of None \<Rightarrow> 300000 | Some v \<Rightarrow> if v = 0 then 300000 else v) 10000"
    by (simp add: minGapMs_def DEFAULT_MIN_GAP_MS_def split: option.splits)
qed

lemma ex_sweep_enter:
  "sweepEnter False ex_ctx ex_sweep_state =
     (None, ex_sweep_state\<lparr>isResetRunning := True, lastResetRunAt := now ex_ctx\<rparr>)"
  by (simp add: sweepEnter_def ex_ctx_def ex_sweep_state_def DAY_MS_def minGapMs_def
      DEFAULT_MIN_GAP_MS_def)

theorem throttled_call_skips_witness:
  "real_of_int (now (ex_ctx\<lparr>now := 100 * DAY_MS + 299999\<rparr>)
       - lastResetRunAt (ex_sweep_state\<lparr>lastResetRunAt := 100 * DAY_MS\<rparr>))
     < minGapMs (envMinGap (ex_ctx\<lparr>now := 100 * DAY_MS + 299999\<rparr>))
   \<and> resetStudentBalancesIfNeeded False (ex_ctx\<lparr>now := 100 * DAY_MS + 299999\<rparr>)
         (ex_sweep_state\<lparr>lastResetRunAt := 100 * DAY_MS\<rparr>)
       = (Returned (Skipped ''throttled''), ex_sweep_state\<lparr>lastResetRunAt := 100 * DAY_MS\<rparr>)
   \<and> sweepEnter False ex_ctx ex_sweep_state =
       (None, ex_sweep_state\<lparr>isResetRunning := True, lastResetRunAt := now ex_ctx\<rparr>)
   \<and> resetStudentBalancesIfNeeded False (ex_ctx\<lparr>now := 100 * DAY_MS + 299999\<rparr>)
         (snd (sweepBody ex_ctx (ex_sweep_state\<lparr>isResetRunning := True, lastResetRunAt := now ex_ctx\<rparr>)))
       = (Returned (Skipped ''throttled''),
          snd (sweepBody ex_ctx (ex_sweep_state\<lparr>isResetRunning := True, lastResetRunAt := now ex_ctx\<rparr>)))"
proof -
  have gap: "minGapMs (envMinGap (ex_ctx\<lparr>now := 100 * DAY_MS + 299999\<rparr>)) = 300000"
    by (simp add: minGapMs_def DEFAULT_MIN_GAP_MS_def ex_ctx_def)
  have h1: "real_of_int (now (ex_ctx\<lparr>now := 100 * DAY_MS + 299999\<rparr>)
       - lastResetRunAt (ex_sweep_state\<lparr>lastResetRunAt := 100 * DAY_MS\<rparr>))
     < minGapMs (envMinGap (ex_ctx\<lparr>now := 100 * DAY_MS + 299999\<rparr>))"
    unfolding gap by (simp add: ex_ctx_def)
  have h2: "real_of_int (now (ex_ctx\<lparr>now := 100 * DAY_MS + 299999\<rparr>) - now ex_ctx)
     < minGapMs (envMinGap (ex_ctx\<lparr>now := 100 * DAY_MS + 299999\<rparr>))"
    unfolding gap by (simp add: ex_ctx_def)
  from throttled_call_skips[where c = "ex_ctx\<lparr>now := 100 * DAY_MS + 299999\<rparr>"
      and st = "ex_sweep_state\<lparr>lastResetRunAt := 100 * DAY_MS\<rparr>"] h1
  have a: "resetStudentBalancesIfNeeded False (ex_ctx\<lparr>now := 100 * DAY_MS + 299999\<rparr>)
         (ex_sweep_state\<lparr>lastResetRunAt := 100 * DAY_MS\<rparr>)
       = (Returned (Skipped ''throttled''), ex_sweep_state\<lparr>lastResetRunAt := 100 * DAY_MS\<rparr>)"
    by blast
  from throttled_call_skips[where c = "ex_ctx\<lparr>now := 100 * DAY_MS + 299999\<rparr>"
      and st = ex_sweep_state and ?force1.0 = False and ?c1.0 = ex_ctx
      and ?st1.0 = "ex_sweep_state\<lparr>isResetRunning := True, lastResetRunAt := now ex_ctx\<rparr>"]
    h2 ex_sweep_enter
  have b: "resetStudentBalancesIfNeeded False (ex_ctx\<lparr>now := 100 * DAY_MS + 299999\<rparr>)
         (snd (sweepBody ex_ctx (ex_sweep_state\<lparr>isResetRunning := True, lastResetRunAt := now ex_ctx\<rparr>)))
       = (Returned (Skipped ''throttled''),
          snd (sweepBody ex_ctx (ex_sweep_state\<lparr>isResetRunning := True, lastResetRunAt := now ex_ctx\<rparr>)))"
    by blast
  from a b h1 ex_sweep_enter show ?thesis by blast
qed

text \<open>
  Claim C6. While \<^verbatim>\<open>isResetRunning\<close> is set, a call that is forced or past the
  throttle returns \<^verbatim>\<open>skipped\<close> with the reason \<^verbatim>\<open>in_progress\<close> and leaves the state
  as it was. The body of a sweep clears the flag when the update succeeds and when the
  store rejects it, so a call from an idle state ends idle and the next call is not
  answered \<^verbatim>\<open>in_progress\<close>. Under every interleaving of calls, completions and other
  requests, at most one sweep is between its entry and its end, and the flag is set
  exactly then.
\<close>

lemma sched_inv:
  "(st, n) \<in> sched \<Longrightarrow> (isResetRunning st \<longrightarrow> n = 1) \<and> (\<not> isResetRunning st \<longrightarrow> n = 0)"
proof (induction rule: sched.induct)
  case (idle st)
  then show ?case by simp
next
  case (skip st n force c r st')
  then show ?case using sweepEnter_Some by blast
next
  case (start st n force c st')
  then show ?case using sweepEnter_None by fastforce
next
  case (finish st n c)
  then show ?case using sweepBody_releases by (cases "isResetRunning st") auto
next
  case (other st n ds gs)
  then show ?case by simp
qed

theorem sweeps_exclusive_and_released:
  "(isResetRunning st \<and>
      (force \<or> \<not> real_of_int (now c - lastResetRunAt st) < minGapMs (envMinGap c))
      \<longrightarrow> resetStudentBalancesIfNeeded force c st = (Returned (Skipped ''in_progress''), st))
   \<and> \<not> isResetRunning (snd (sweepBody c st))
   \<and> (\<not> isResetRunning st \<longrightarrow>
        \<not> isResetRunning (snd (resetStudentBalancesIfNeeded force c st)) \<and>
        fst (resetStudentBalancesIfNeeded force' c' (snd (resetStudentBalancesIfNeeded force c st)))
          \<noteq> Returned (Skipped ''in_progress''))
   \<and> ((st, n) \<in> sched \<longrightarrow> n \<le> 1 \<and> (isResetRunning st \<longleftrightarrow> n = 1))"
proof (intro conjI impI)
  assume "isResetRunning st \<and>
    (force \<or> \<not> real_of_int (now c - lastResetRunAt st) < minGapMs (envMinGap c))"
  then show "resetStudentBalancesIfNeeded force c st = (Returned (Skipped ''in_progress''), st)"
    by (auto simp: resetStudentBalancesIfNeeded_def sweepEnter_def)
next
  show "\<not> isResetRunning (snd (sweepBody c st))" by (rule sweepBody_releases)
next
  assume idle: "\<not> isResetRunning st"
  show r: "\<not> isResetRunning (snd (resetStudentBalancesIfNeeded force c st))"
    using idle sweepBody_releases
    by (auto simp: resetStudentBalancesIfNeeded_def sweepEnter_def)
  show "fst (resetStudentBalancesIfNeeded force' c' (snd (resetStudentBalancesIfNeeded force c st)))
          \<noteq> Returned (Skipped ''in_progress'')"
    using r
    by (auto simp: resetStudentBalancesIfNeeded_def sweepEnter_def sweepBody_def Let_def
        split: prod.splits)
next
  assume "(st, n) \<in> sched"
  from sched_inv[OF this] show "n \<le> 1" by (cases "isResetRunning st") auto
next
  assume "(st, n) \<in> sched"
  from sched_inv[OF this] show "isResetRunning st \<longleftrightarrow> n = 1" by (cases "isResetRunning st") auto
qed

lemma ex_sched_running:
  "(ex_sweep_state\<lparr>isResetRunning := True, lastResetRunAt := now ex_ctx\<rparr>, Suc 0) \<in> sched"
proof -
  have "(ex_sweep_state, 0) \<in> sched"
    by (rule sched.idle) (simp add: ex_sweep_state_def)
  from sched.start[OF this ex_sweep_enter] show ?thesis .
qed

theorem sweeps_exclusive_and_released_witness:
  "isResetRunning (ex_sweep_state\<lparr>isResetRunning := True, lastResetRunAt := now ex_ctx\<rparr>)
   \<and> resetStudentBalancesIfNeeded True ex_ctx
        (ex_sweep_state\<lparr>isResetRunning := True, lastResetRunAt := now ex_ctx\<rparr>)
      = (Returned (Skipped ''in_progress''),
         ex_sweep_state\<lparr>isResetRunning := True, lastResetRunAt := now ex_ctx\<rparr>)
   \<and> (ex_sweep_state\<lparr>isResetRunning := True, lastResetRunAt := now ex_ctx\<rparr>, Suc 0) \<in> sched
   \<and> \<not> isResetRunning ex_sweep_state
   \<and> \<not> isResetRunning (snd (resetStudentBalancesIfNeeded True (ex_ctx\<lparr>storeFails := True\<rparr>) ex_sweep_state))
   \<and> fst (resetStudentBalancesIfNeeded True ex_ctx
            (snd (resetStudentBalancesIfNeeded True (ex_ctx\<lparr>storeFails := True\<rparr>) ex_sweep_state)))
       \<noteq> Returned (Skipped ''in_progress'')"
proof -
  have run: "isResetRunning (ex_sweep_state\<lparr>isResetRunning := True, lastResetRunAt := now ex_ctx\<rparr>)"
    by simp
  have idle: "\<not> isResetRunning ex_sweep_state"
    by (simp add: ex_sweep_state_def)
  from sweeps_exclusive_and_released[of
      "ex_sweep_state\<lparr>isResetRunning := True, lastResetRunAt := now ex_ctx\<rparr>" True ex_ctx _ _ "Suc 0"]
    run ex_sched_running
  have a: "resetStudentBalancesIfNeeded True ex_ctx
        (ex_sweep_state\<lparr>isResetRunning := True, lastResetRunAt := now ex_ctx\<rparr>)
      = (Returned (Skipped ''in_progress''),
         ex_sweep_state\<lparr>isResetRunning := True, lastResetRunAt := now ex_ctx\<rparr>)"
    by blast
  from sweeps_exclusive_and_released[of ex_sweep_state True "ex_ctx\<lparr>storeFails := True\<rparr>" True ex_ctx]
    idle
  have b: "\<not> isResetRunning (snd (resetStudentBalancesIfNeeded True (ex_ctx\<lparr>storeFails := True\<rparr>) ex_sweep_state))
     \<and> fst (resetStudentBalancesIfNeeded True ex_ctx
            (snd (resetStudentBalancesIfNeeded True (ex_ctx\<lparr>storeFails := True\<rparr>) ex_sweep_state)))
       \<noteq> Returned (Skipped ''in_progress'')"
    by blast
  from a b run idle ex_sched_running show ?thesis by blast
qed

section \<open>Serialization\<close>

lemma deleteKey_absent: "map_of (deleteKey k ret) k = None"
  by (auto simp: deleteKey_def map_of_eq_None_iff)

lemma deleteKey_other: "k' \<noteq> k \<Longrightarrow> map_of (deleteKey k ret) k' = map_of ret k'"
  by (induction ret) (auto simp: deleteKey_def)

lemma hideSensitiveFields_lookup:
  "map_of (hideSensitiveFields ret) k =
     (if k = ''password'' \<or> k = ''balanceResetAt'' then None else map_of ret k)"
  by (simp add: hideSensitiveFields_def deleteKey_absent deleteKey_other)

text \<open>
  Claim C10. Whatever a student document stores, the object that \<^verbatim>\<open>toJSON\<close> and
  \<^verbatim>\<open>toObject\<close> produce has no \<^verbatim>\<open>password\<close> key and no \<^verbatim>\<open>balanceResetAt\<close> key:
  the transform deletes both from any object it receives. The other fields are kept.
\<close>

theorem student_serialization_hides_secrets:
  "map_of (hideSensitiveFields ret) ''password'' = None
   \<and> map_of (hideSensitiveFields ret) ''balanceResetAt'' = None
   \<and> map_of (toJSON s) ''password'' = None
   \<and> map_of (toJSON s) ''balanceResetAt'' = None
   \<and> map_of (toObject s) ''password'' = None
   \<and> map_of (toObject s) ''balanceResetAt'' = None
   \<and> map_of (toJSON s) ''_id'' = Some (JString (sid s))
   \<and> map_of (toJSON s) ''fullname'' = Some (JString (fullname s))
   \<and> map_of (toJSON s) ''groupAttached'' = Some (JBool (groupAttached s))
   \<and> map_of (toJSON s) ''balance'' = Some (JNumber (balance s))
   \<and> map_of (toJSON s) ''coinBalance'' = Some (JNumber (coinBalance s))
   \<and> map_of (toJSON s) ''groups'' = Some (JArray (map membershipObject (groups s)))"
  by (simp add: toJSON_def toObject_def hideSensitiveFields_lookup plainObject_def optField_def
      split: option.splits)

section \<open>Evaluation of the examples\<close>

lemmas ex_defs = ex_ctx_def ex_student_def ex_A_def ex_B_def ex_C_def ex_g1_def DAY_MS_def
  ex_U_def ex_group_def ex_member_def

lemmas sweep_defs = runBalanceResetSafely_def resetStudentBalancesIfNeeded_def sweepEnter_def
  sweepBody_def updateMany_def resetDue_def resetSet_def minGapMs_def DEFAULT_MIN_GAP_MS_def
  THIRTY_DAYS_MS_def

lemma isValidObjectId_ex:
  "isValidObjectId ''aaaaaaaaaaaaaaaaaaaaaaaa''" "isValidObjectId ''bbbbbbbbbbbbbbbbbbbbbbbb''"
  "isValidObjectId ''cccccccccccccccccccccccc''" "isValidObjectId ''111111111111111111111111''"
  by (simp_all add: isValidObjectId_def isHexDigit_def)


section \<open>Attendance\<close>
















lemma sweep_Group: "Group (snd (resetStudentBalancesIfNeeded force c st)) = Group st"
  by (simp add: resetStudentBalancesIfNeeded_def sweepEnter_def sweepBody_def Let_def
      split: prod.splits)

lemma runBalanceResetSafely_Group: "Group (runBalanceResetSafely c st) = Group st"
  by (simp add: runBalanceResetSafely_def sweep_Group)










section \<open>Effects of the operations on the student collection\<close>

lemma sweep_Student:
  "\<exists>P. Student (snd (resetStudentBalancesIfNeeded force c st)) =
     map (\<lambda>d. if P d then resetSet (now c) d else d) (Student st)"
proof (cases "fst (sweepEnter force c st) = None \<and> \<not> storeFails c")
  case True
  then have "Student (snd (resetStudentBalancesIfNeeded force c st)) =
     map (\<lambda>d. if resetDue (now c - THIRTY_DAYS_MS) d then resetSet (now c) d else d) (Student st)"
    by (auto simp: resetStudentBalancesIfNeeded_def sweepEnter_def sweepBody_def Let_def
        updateMany_def split: if_splits)
  then show ?thesis by (rule exI[of _ "resetDue (now c - THIRTY_DAYS_MS)"])
next
  case False
  then have "Student (snd (resetStudentBalancesIfNeeded force c st)) =
     map (\<lambda>d. if False then resetSet (now c) d else d) (Student st)"
    by (auto simp: resetStudentBalancesIfNeeded_def sweepEnter_def sweepBody_def Let_def
        split: if_splits)
  then show ?thesis by (rule exI[of _ "\<lambda>_. False"])
qed

lemma derivedOk_resetSet [simp]: "derivedOk (resetSet t d) = derivedOk d"
  by (simp add: derivedOk_def resetSet_def)

lemma derived_sweep:
  "groupAttachedDerived st \<Longrightarrow> groupAttachedDerived (snd (resetStudentBalancesIfNeeded force c st))"
proof -
  assume a: "groupAttachedDerived st"
  obtain P where "Student (snd (resetStudentBalancesIfNeeded force c st)) =
     map (\<lambda>d. if P d then resetSet (now c) d else d) (Student st)"
    using sweep_Student by blast
  with a show ?thesis
    by (auto simp: groupAttachedDerived_def list_all_iff)
qed

lemma derived_run:
  "groupAttachedDerived st \<Longrightarrow> groupAttachedDerived (runBalanceResetSafely c st)"
  by (simp add: runBalanceResetSafely_def derived_sweep)

lemma derivedOk_preValidate [simp]: "derivedOk (preValidate s)"
  by (simp add: derivedOk_def preValidate_def)

lemma saveStudent_Inr:
  "saveStudent t s st = Inr st' \<Longrightarrow>
     st' = st\<lparr>Student := map (\<lambda>d. if sid d = sid s then preValidate s else d) (Student st)\<rparr>
     \<and> validateStudent t (preValidate s) = None"
  by (auto simp: saveStudent_def Let_def preValidate_def split: option.splits if_splits)

lemma derived_save:
  "saveStudent t s st = Inr st' \<Longrightarrow> groupAttachedDerived st \<Longrightarrow> groupAttachedDerived st'"
  by (drule saveStudent_Inr) (auto simp: groupAttachedDerived_def list_all_iff)

lemma createStudentDoc_Inr:
  "createStudentDoc t s st = Inr st' \<Longrightarrow>
     st' = st\<lparr>Student := Student st @ [preValidate s]\<rparr> \<and> validateStudent t (preValidate s) = None"
  by (auto simp: createStudentDoc_def Let_def split: option.splits if_splits)

lemma derived_create:
  "createStudentDoc t s st = Inr st' \<Longrightarrow> groupAttachedDerived st \<Longrightarrow> groupAttachedDerived st'"
  by (drule createStudentDoc_Inr) (auto simp: groupAttachedDerived_def)

lemma Student_ensure [simp]: "Student (ensureStudentInGroupList g s st) = Student st"
  by (simp add: ensureStudentInGroupList_def)

lemma Student_remove [simp]: "Student (removeStudentFromGroupList g s st) = Student st"
  by (simp add: removeStudentFromGroupList_def)

lemma Student_sync [simp]: "Student (syncGroupStudentLinks s p n st) = Student st"
  by (simp add: syncGroupStudentLinks_def Let_def)

lemma derived_Student_cong:
  "Student st' = Student st \<Longrightarrow> groupAttachedDerived st' = groupAttachedDerived st"
  by (simp add: groupAttachedDerived_def)

lemma attach_rule:
  assumes "P (runBalanceResetSafely c st0)"
    and "\<And>stu gs st'. findStudentById (runBalanceResetSafely c st0) s = Some stu \<Longrightarrow>
           saveStudent (now c) (stu\<lparr>groups := gs\<rparr>) (runBalanceResetSafely c st0) = Inr st' \<Longrightarrow>
           P (ensureStudentInGroupList g s st')"
  shows "P (snd (attachStudentToGroup g s b c st0))"
  using assms
  by (simp add: attachStudentToGroup_def Let_def
      split: option.split sum.split save_error.split)

lemma detach_rule:
  assumes "P (runBalanceResetSafely c st0)"
    and "\<And>stu gs st'. findStudentById (runBalanceResetSafely c st0) s = Some stu \<Longrightarrow>
           saveStudent (now c) (stu\<lparr>groups := gs\<rparr>) (runBalanceResetSafely c st0) = Inr st' \<Longrightarrow>
           P (removeStudentFromGroupList g s st')"
  shows "P (snd (detachStudentFromGroup g s c st0))"
  using assms
  by (simp add: detachStudentFromGroup_def Let_def
      split: option.split sum.split save_error.split)

lemma reward_rule:
  assumes "P (runBalanceResetSafely c st0)"
    and "\<And>stu x st'. findStudentById (runBalanceResetSafely c st0) s = Some stu \<Longrightarrow>
           isPositiveInteger (Finite x) \<Longrightarrow>
           saveStudent (now c) (stu\<lparr>coinBalance := coinBalance stu + x\<rparr>) (runBalanceResetSafely c st0) = Inr st' \<Longrightarrow>
           P st'"
  shows "P (snd (rewardStudentCoins s a n c st0))"
  using assms
  by (cases a) (simp_all add: rewardStudentCoins_def Let_def isPositiveInteger_def
      split: option.split sum.split save_error.split)

lemma update_rule:
  assumes "P (runBalanceResetSafely c st0)"
    and "\<And>stu st' st''. findStudentById (runBalanceResetSafely c st0) s = Some stu \<Longrightarrow>
           updateFieldError b = None \<Longrightarrow>
           saveStudent (now c) (assignPayload b c stu) (runBalanceResetSafely c st0) = Inr st' \<Longrightarrow>
           Student st'' = Student st' \<Longrightarrow> P st''"
  shows "P (snd (updateStudent s b c st0))"
  using assms
  by (simp add: updateStudent_def Let_def
      split: option.split sum.split save_error.split)

lemma create_rule:
  assumes "P (runBalanceResetSafely c st0)"
    and "\<And>st' st''. createStudentDoc (now c) (studentPayloadOf b c) (runBalanceResetSafely c st0) = Inr st' \<Longrightarrow>
           Student st'' = Student st' \<Longrightarrow> P st''"
  shows "P (snd (createStudent b c st0))"
  using assms
  by (simp add: createStudent_def Let_def
      split: option.split sum.split save_error.split)

lemma deleteStudent_rule:
  assumes "P (runBalanceResetSafely c st0)"
    and "\<And>st''. Student st'' = filter (\<lambda>d. sid d \<noteq> s) (Student (runBalanceResetSafely c st0)) \<Longrightarrow> P st''"
  shows "P (snd (deleteStudent s c st0))"
  using assms
  by (simp add: deleteStudent_def Let_def split: option.split)

lemma upsert_rule:
  assumes "P (runBalanceResetSafely c st0)"
    and "\<And>st''. Student st'' = Student (runBalanceResetSafely c st0) \<Longrightarrow> P st''"
  shows "P (snd (upsertGroupAttendance g d r u c st0))"
  using assms
  by (simp add: upsertGroupAttendance_def Let_def split: option.split)

section \<open>The derived flag\<close>

lemma deleteGroup_Student:
  "\<exists>f. Student (snd (deleteGroup g c st0)) = map f (Student (runBalanceResetSafely c st0)) \<and>
        (\<forall>d. derivedOk d \<longrightarrow> derivedOk (f d)) \<and>
        (\<forall>d. sid (f d) = sid d) \<and> (\<forall>d. coinBalance (f d) = coinBalance d)"
proof -
  let ?st = "runBalanceResetSafely c st0"
  let ?A = "set (map sid (filter (\<lambda>d. list_ex (\<lambda>m. mgroup m = g) (groups d)) (Student ?st)))"
  let ?f = "\<lambda>d. if sid d \<in> ?A
                then d\<lparr>groups := filter (\<lambda>m. mgroup m \<noteq> g) (groups d),
                       groupAttached := 0 < length (filter (\<lambda>groupItem. status groupItem = Active)
                                          (filter (\<lambda>m. mgroup m \<noteq> g) (groups d)))\<rparr>
                else d"
  have m: "snd (updateMany (\<lambda>d. sid d \<in> ?A)
          (\<lambda>d. d\<lparr>groupAttached := 0 < length (filter (\<lambda>groupItem. status groupItem = Active) (groups d))\<rparr>)
          (snd (updateMany (\<lambda>d. sid d \<in> ?A)
             (\<lambda>d. d\<lparr>groups := filter (\<lambda>m. mgroup m \<noteq> g) (groups d)\<rparr>) (Student ?st)))) =
        map ?f (Student ?st)"
    by (simp add: updateMany_def)
  have f1: "\<forall>d. derivedOk d \<longrightarrow> derivedOk (?f d)"
    by (auto simp: derivedOk_def list_ex_iff filter_empty_conv)
  have f2: "(\<forall>d. sid (?f d) = sid d) \<and> (\<forall>d. coinBalance (?f d) = coinBalance d)"
    by simp
  have id: "(\<forall>d. derivedOk d \<longrightarrow> derivedOk ((\<lambda>d. d) d)) \<and> (\<forall>d::student_doc. sid ((\<lambda>d. d) d) = sid d)
     \<and> (\<forall>d::student_doc. coinBalance ((\<lambda>d. d) d) = coinBalance d)"
    by simp
  have "Student (snd (deleteGroup g c st0)) = map (\<lambda>d. d) (Student ?st) \<or>
        Student (snd (deleteGroup g c st0)) = map ?f (Student ?st)"
    using m by (simp add: deleteGroup_def Let_def split: option.split del: set_map)
  then show ?thesis
  proof
    assume "Student (snd (deleteGroup g c st0)) = map (\<lambda>d. d) (Student ?st)"
    with id show ?thesis by blast
  next
    assume a: "Student (snd (deleteGroup g c st0)) = map ?f (Student ?st)"
    show ?thesis
      by (rule exI[of _ ?f]) (use a f1 f2 in blast)
  qed
qed

lemma run_derived:
  "list_all derivedOk (Student st) \<Longrightarrow> list_all derivedOk (Student (runBalanceResetSafely c st))"
  using derived_run[of st c] by (simp add: groupAttachedDerived_def)

lemma save_derived:
  "saveStudent t s st = Inr st' \<Longrightarrow> list_all derivedOk (Student st) \<Longrightarrow>
     list_all derivedOk (Student st')"
  using derived_save[of t s st st'] by (simp add: groupAttachedDerived_def)

lemma create_derived:
  "createStudentDoc t s st = Inr st' \<Longrightarrow> list_all derivedOk (Student st) \<Longrightarrow>
     list_all derivedOk (Student st')"
  using derived_create[of t s st st'] by (simp add: groupAttachedDerived_def)

lemma derived_handle:
  assumes "groupAttachedDerived st"
  shows "groupAttachedDerived (handle req c st)"
proof -
  from assms have a: "list_all derivedOk (Student st)" by (simp add: groupAttachedDerived_def)
  note r = run_derived[OF a, of c]
  let ?P = "\<lambda>st. list_all derivedOk (Student st)"
  have "?P (handle req c st)"
  proof (cases req)
    case (CreateStudent b)
    show ?thesis unfolding CreateStudent handle_def request.case
    proof (rule create_rule[where P = ?P])
      show "?P (runBalanceResetSafely c st)" by (rule r)
    next
      fix st' st''
      assume "createStudentDoc (now c) (studentPayloadOf b c) (runBalanceResetSafely c st) = Inr st'"
        and "Student st'' = Student st'"
      with create_derived[OF _ r] show "?P st''" by simp
    qed
  next
    case (UpdateStudent s b)
    show ?thesis unfolding UpdateStudent handle_def request.case
    proof (rule update_rule[where P = ?P])
      show "?P (runBalanceResetSafely c st)" by (rule r)
    next
      fix stu st' st''
      assume "saveStudent (now c) (assignPayload b c stu) (runBalanceResetSafely c st) = Inr st'"
        and "Student st'' = Student st'"
      with save_derived[OF _ r] show "?P st''" by simp
    qed
  next
    case (DeleteStudent s)
    show ?thesis unfolding DeleteStudent handle_def request.case
    proof (rule deleteStudent_rule[where P = ?P])
      show "?P (runBalanceResetSafely c st)" by (rule r)
    next
      fix st''
      assume "Student st'' = filter (\<lambda>d. sid d \<noteq> s) (Student (runBalanceResetSafely c st))"
      with r show "?P st''" by (simp add: list_all_iff)
    qed
  next
    case (RewardStudentCoins s a n)
    show ?thesis unfolding RewardStudentCoins handle_def request.case
    proof (rule reward_rule[where P = ?P])
      show "?P (runBalanceResetSafely c st)" by (rule r)
    next
      fix stu x st'
      assume "saveStudent (now c) (stu\<lparr>coinBalance := coinBalance stu + x\<rparr>)
                (runBalanceResetSafely c st) = Inr st'"
      with save_derived[OF _ r] show "?P st'" by simp
    qed
  next
    case (AttachStudentToGroup g s b)
    show ?thesis unfolding AttachStudentToGroup handle_def request.case
    proof (rule attach_rule[where P = ?P])
      show "?P (runBalanceResetSafely c st)" by (rule r)
    next
      fix stu gs st'
      assume "saveStudent (now c) (stu\<lparr>groups := gs\<rparr>) (runBalanceResetSafely c st) = Inr st'"
      with save_derived[OF _ r] show "?P (ensureStudentInGroupList g s st')" by simp
    qed
  next
    case (DetachStudentFromGroup g s)
    show ?thesis unfolding DetachStudentFromGroup handle_def request.case
    proof (rule detach_rule[where P = ?P])
      show "?P (runBalanceResetSafely c st)" by (rule r)
    next
      fix stu gs st'
      assume "saveStudent (now c) (stu\<lparr>groups := gs\<rparr>) (runBalanceResetSafely c st) = Inr st'"
      with save_derived[OF _ r] show "?P (removeStudentFromGroupList g s st')" by simp
    qed
  next
    case (DeleteGroup g)
    obtain f where "Student (snd (deleteGroup g c st)) = map f (Student (runBalanceResetSafely c st))"
      and "\<forall>d. derivedOk d \<longrightarrow> derivedOk (f d)"
      using deleteGroup_Student[of g c st] by blast
    with r show ?thesis unfolding DeleteGroup handle_def request.case
      by (simp add: list_all_iff)
  next
    case (UpsertGroupAttendance g d rs u)
    show ?thesis unfolding UpsertGroupAttendance handle_def request.case
    proof (rule upsert_rule[where P = ?P])
      show "?P (runBalanceResetSafely c st)" by (rule r)
    next
      fix st''
      assume "Student st'' = Student (runBalanceResetSafely c st)"
      with r show "?P st''" by simp
    qed
  next
    case ResetJob
    from derived_sweep[OF assms, of True c] show ?thesis
      unfolding ResetJob handle_def request.case by (simp add: groupAttachedDerived_def)
  qed
  then show ?thesis by (simp add: groupAttachedDerived_def)
qed

lemma derived_reachable: "st \<in> reachable \<Longrightarrow> groupAttachedDerived st"
proof (induction rule: reachable.induct)
  case (init gs)
  show ?case by (simp add: groupAttachedDerived_def)
next
  case (step st req c)
  then show ?case by (simp add: derived_handle)
next
  case (edit st gs)
  then show ?case by (simp add: groupAttachedDerived_def)
qed

text \<open>
  Claim C2. Every request keeps the property that each student's \<^verbatim>\<open>groupAttached\<close>
  is true exactly when one of the student's memberships is active: creating a student,
  updating one (with or without groups), attaching, detaching, deleting a group or a
  student, rewarding, marking attendance and the sweep. No request body has a field for
  the flag; every save recomputes it. So in every state reached from an empty student
  collection the flag of every student is the derived value.
\<close>

theorem groupAttached_is_derived:
  "(groupAttachedDerived st \<longrightarrow> groupAttachedDerived (handle req c st))
   \<and> (st \<in> reachable \<longrightarrow>
        (\<forall>S \<in> set (Student st). groupAttached S \<longleftrightarrow> (\<exists>m \<in> set (groups S). status m = Active)))"
proof (intro conjI impI)
  assume "groupAttachedDerived st"
  then show "groupAttachedDerived (handle req c st)" by (rule derived_handle)
next
  assume "st \<in> reachable"
  from derived_reachable[OF this]
  show "\<forall>S \<in> set (Student st). groupAttached S \<longleftrightarrow> (\<exists>m \<in> set (groups S). status m = Active)"
    by (auto simp: groupAttachedDerived_def derivedOk_def list_all_iff list_ex_iff)
qed

lemmas student_defs = createStudent_def createFieldError_def PHONE_PATTERN_def isDigit_def
  parseGroupIds_def uniqueInOrder_def validateGroupAssignments_def idsOf_def
  countActiveMembershipsByGroupIds_def createStudentDoc_def validateStudent_def preValidate_def
  studentPayloadOf_def toStudentGroupMemberships_def syncGroupStudentLinks_def
  normalizeObjectIdArray_def parseBirthDate_def findStudentById_def findGroupById_def
  saveStudent_def

lemma ex_create_run:
  "createStudent ex_create_body ex_ctx ex_init =
     ((201, ''Student created successfully''),
      \<lparr>Student = [\<lparr>sid = ''dddddddddddddddddddddddd'', fullname = ''Ali Valiyev'',
                   studentPhone = ''+998901234567'', parentPhone = ''+998907654321'',
                   groupAttached = True, gender = ''male'', birthDate = 0, snote = None,
                   password = Some ''$2b$12$secret123'', balance = 0,
                   balanceResetAt = Some (100 * DAY_MS), coinBalance = 0,
                   groups = [\<lparr>mgroup = ex_g1, status = Active, joinedAt = 100 * DAY_MS,
                              mnote = None\<rparr>]\<rparr>],
       Group = [(ex_group ex_g1 GActive 2)\<lparr>students := [''dddddddddddddddddddddddd'']\<rparr>],
       isResetRunning = False, lastResetRunAt = 100 * DAY_MS\<rparr>)"
  by (simp add: student_defs ex_create_body_def ex_init_def sweep_defs ex_defs isValidObjectId_ex
      Let_def)

theorem groupAttached_is_derived_witness:
  "groupAttachedDerived ex_init
   \<and> groupAttachedDerived (handle (CreateStudent ex_create_body) ex_ctx ex_init)
   \<and> handle (CreateStudent ex_create_body) ex_ctx ex_init \<in> reachable
   \<and> Student (handle (CreateStudent ex_create_body) ex_ctx ex_init) = [ex_created]
   \<and> groupAttached ex_created
   \<and> (\<exists>m \<in> set (groups ex_created). status m = Active)"
proof -
  have i: "groupAttachedDerived ex_init"
    by (simp add: groupAttachedDerived_def ex_init_def)
  have "ex_init \<in> reachable"
    unfolding ex_init_def by (rule reachable.init)
  then have r: "handle (CreateStudent ex_create_body) ex_ctx ex_init \<in> reachable"
    by (rule reachable.step)
  have s: "Student (handle (CreateStudent ex_create_body) ex_ctx ex_init) = [ex_created]"
    by (simp add: handle_def ex_create_run ex_created_def)
  from groupAttached_is_derived[of ex_init "CreateStudent ex_create_body" ex_ctx] i
  have a: "groupAttachedDerived (handle (CreateStudent ex_create_body) ex_ctx ex_init)"
    by blast
  from groupAttached_is_derived[of "handle (CreateStudent ex_create_body) ex_ctx ex_init"] r s
  have b: "groupAttached ex_created \<longleftrightarrow> (\<exists>m \<in> set (groups ex_created). status m = Active)"
    by simp
  have c: "groupAttached ex_created" by (simp add: ex_created_def)
  from i a r s b c show ?thesis by blast
qed

section \<open>Coin balances\<close>




























lemma findStudentById_Student:
  "Student st' = Student st \<Longrightarrow> findStudentById st' i = findStudentById st i"
  by (simp add: findStudentById_def)








section \<open>Saving a student with a placed membership\<close>













lemma length_filter_map: "length (filter P (map f xs)) = length (filter (\<lambda>x. P (f x)) xs)"
  by (induction xs) auto










section \<open>Validation of the desired groups\<close>

lemma set_uniqueInOrder [simp]: "set (uniqueInOrder xs) = set xs"
  by (simp add: uniqueInOrder_def)

lemma distinct_uniqueInOrder [simp]: "distinct (uniqueInOrder xs)"
  by (simp add: uniqueInOrder_def)














section \<open>Capacity of a group\<close>





section \<open>Closed groups, unknown and repeated group ids\<close>









lemma Group_run [simp]: "Group (runBalanceResetSafely c st) = Group st"
  by (rule runBalanceResetSafely_Group)



section \<open>Evaluation of the membership examples\<close>

lemmas attach_defs = attachStudentToGroup_def detachStudentFromGroup_def statusField_def
  parseGroupMembershipPayload_def parseGroupMemberStatus_def statusOfString_def
  stringOfStatus_def parseDateValue_def membershipIndexOf_def existingMembershipOf_def
  isActivatingNewSeat_def nextMembershipOf_def placeMembership_def
  countActiveStudentsForGroup_def ensureStudentInGroupList_def removeStudentFromGroupList_def

lemmas cap_defs = ex_cap0_def ex_cap1_def ex_cap2_def ex_cap3_def ex_cap4_def ex_closed_state_def
  ex_joined_def ex_body_def ex_missing_def


lemma ex_run_cap [simp]:
  "runBalanceResetSafely ex_ctx ex_cap0 = ex_cap0"
  "runBalanceResetSafely ex_ctx ex_cap1 = ex_cap1"
  "runBalanceResetSafely ex_ctx ex_cap2 = ex_cap2"
  "runBalanceResetSafely ex_ctx ex_cap3 = ex_cap3"
  "runBalanceResetSafely ex_ctx ex_closed_state = ex_closed_state"
  by (simp_all add: sweep_defs cap_defs ex_defs)



lemma ex_attach_C_full:
  "attachStudentToGroup ex_g1 ex_C (ex_body ''active'') ex_ctx ex_cap2 =
     ((409, ''Group has reached maxStudents limit''), ex_cap2)"
  by (simp add: attach_defs student_defs cap_defs sweep_defs ex_defs isValidObjectId_ex Let_def)










lemma ex_create_closed:
  "createStudent ex_create_body ex_ctx ex_closed_state =
     ((400, ''Cannot attach an active student membership to completed or archived groups''),
      ex_closed_state)"
  by (simp add: student_defs ex_create_body_def cap_defs sweep_defs ex_defs isValidObjectId_ex
      Let_def)




end
